theory Spec2Isabelle
  imports Complex_Main "HOL-Library.AList" "HOL-Library.Sublist" "HOL-Library.Multiset"
begin

section \<open>Python values\<close>

text \<open>
  The program is \<^verbatim>\<open>src/ml/automation.py\<close>. Its configuration, metrics and reports are
  Python dictionaries of type \<^verbatim>\<open>dict[str, Any]\<close>, read from YAML and JSON files.

  A Python float is a rational number or one of the three special values. The program
  never does arithmetic on the floats it compares, it only converts, stores and compares
  them, and the order of two finite doubles is the order of the rationals they denote.
\<close>

datatype pyfloat = Fin rat | PosInf | NegInf | NaN

text \<open>Python's \<^verbatim>\<open>a >= b\<close> on floats: every comparison with NaN is false.\<close>

fun float_ge :: "pyfloat \<Rightarrow> pyfloat \<Rightarrow> bool" where
  "float_ge NaN b = False"
| "float_ge a NaN = False"
| "float_ge PosInf b = True"
| "float_ge a NegInf = True"
| "float_ge (Fin a) (Fin b) = (b \<le> a)"
| "float_ge (Fin a) PosInf = False"
| "float_ge NegInf b = False"

text \<open>
  The values that YAML and JSON documents hold. A dictionary is an association list in
  insertion order, with string keys; a Python dictionary never holds a key twice.
\<close>

datatype pyval =
    PNone
  | PBool bool
  | PInt int
  | PFloat pyfloat
  | PStr string
  | PList "pyval list"
  | PDict "(string \<times> pyval) list"

type_synonym pydict = "(string \<times> pyval) list"

text \<open>
  Exceptions are values: a function that can raise returns \<open>error + 'a\<close>, with \<open>Inl\<close>
  the exception. \<open>LibraryError\<close> stands for whatever pandas or scikit-learn raise
  from inside a call.
\<close>

datatype error =
    KeyError string
  | IndexError
  | TypeError
  | AttributeError
  | OverflowError
  | ValueError string
  | FileNotFoundError string
  | SameFileError
  | JSONDecodeError
  | HTTPException nat string
  | LibraryError string

definition and_then :: "error + 'a \<Rightarrow> ('a \<Rightarrow> error + 'b) \<Rightarrow> error + 'b" where
  "and_then r f = (case r of Inl e \<Rightarrow> Inl e | Inr x \<Rightarrow> f x)"

text \<open>
  What Python's built-in conversions and string methods do is not code of this program:
  it is a parameter of the model. \<open>repr_of\<close> is \<^verbatim>\<open>str(v)\<close> for a value that is not a
  string, \<open>float_of_str\<close> and \<open>int_of_str\<close> parse (\<open>None\<close>: \<^verbatim>\<open>ValueError\<close>),
  \<open>float_of_int\<close> rounds an integer to a double (\<open>None\<close>: \<^verbatim>\<open>OverflowError\<close>),
  \<open>strip\<close> and \<open>lower\<close> are \<^verbatim>\<open>str.strip()\<close> and \<^verbatim>\<open>str.lower()\<close>.
\<close>

record pylib =
  repr_of :: "pyval \<Rightarrow> string"
  float_of_str :: "string \<Rightarrow> pyfloat option"
  float_of_int :: "int \<Rightarrow> pyfloat option"
  int_of_str :: "string \<Rightarrow> int option"
  strip :: "string \<Rightarrow> string"
  lower :: "string \<Rightarrow> string"

definition py_str :: "pylib \<Rightarrow> pyval \<Rightarrow> string" where
  "py_str L v = (case v of PStr s \<Rightarrow> s | _ \<Rightarrow> repr_of L v)"

definition py_float :: "pylib \<Rightarrow> pyval \<Rightarrow> error + pyfloat" where
  "py_float L v =
     (case v of
        PFloat x \<Rightarrow> Inr x
      | PBool b \<Rightarrow> Inr (Fin (if b then 1 else 0))
      | PInt i \<Rightarrow> (case float_of_int L i of None \<Rightarrow> Inl OverflowError | Some x \<Rightarrow> Inr x)
      | PStr s \<Rightarrow> (case float_of_str L s of None \<Rightarrow> Inl (ValueError s) | Some x \<Rightarrow> Inr x)
      | _ \<Rightarrow> Inl TypeError)"

text \<open>
  \<^verbatim>\<open>int(v)\<close> truncates a float towards zero; \<^verbatim>\<open>bool(v)\<close> is the truth value of \<open>v\<close>
  (NaN is true); iterating a string yields its characters, a mapping its keys.
\<close>

definition py_int :: "pylib \<Rightarrow> pyval \<Rightarrow> error + int" where
  "py_int L v =
     (case v of
        PInt i \<Rightarrow> Inr i
      | PBool b \<Rightarrow> Inr (if b then 1 else 0)
      | PFloat x \<Rightarrow>
          (case x of
             Fin q \<Rightarrow> Inr (if 0 \<le> q then \<lfloor>q\<rfloor> else \<lceil>q\<rceil>)
           | NaN \<Rightarrow> Inl (ValueError ''cannot convert float NaN to integer'')
           | _ \<Rightarrow> Inl OverflowError)
      | PStr s \<Rightarrow> (case int_of_str L s of None \<Rightarrow> Inl (ValueError s) | Some i \<Rightarrow> Inr i)
      | _ \<Rightarrow> Inl TypeError)"

definition py_bool :: "pyval \<Rightarrow> bool" where
  "py_bool v =
     (case v of
        PNone \<Rightarrow> False
      | PBool b \<Rightarrow> b
      | PInt i \<Rightarrow> i \<noteq> 0
      | PFloat x \<Rightarrow> x \<noteq> Fin 0
      | PStr s \<Rightarrow> s \<noteq> []
      | PList xs \<Rightarrow> xs \<noteq> []
      | PDict d \<Rightarrow> d \<noteq> [])"

definition py_iter :: "pyval \<Rightarrow> error + pyval list" where
  "py_iter v =
     (case v of
        PList xs \<Rightarrow> Inr xs
      | PStr s \<Rightarrow> Inr (map (\<lambda>c. PStr [c]) s)
      | PDict d \<Rightarrow> Inr (map (\<lambda>(k, x). PStr k) d)
      | _ \<Rightarrow> Inl TypeError)"

text \<open>
  \<^verbatim>\<open>v[k]\<close> and \<^verbatim>\<open>v.get(k, default)\<close>. The configuration is not validated, so a section
  may hold anything: subscripting a value that is not a mapping is a \<^verbatim>\<open>TypeError\<close>,
  calling \<^verbatim>\<open>.get\<close> on it an \<^verbatim>\<open>AttributeError\<close>.
\<close>

definition getitem :: "pyval \<Rightarrow> string \<Rightarrow> error + pyval" where
  "getitem v k =
     (case v of
        PDict d \<Rightarrow> (case map_of d k of None \<Rightarrow> Inl (KeyError k) | Some x \<Rightarrow> Inr x)
      | _ \<Rightarrow> Inl TypeError)"

definition get_method :: "pyval \<Rightarrow> string \<Rightarrow> pyval \<Rightarrow> error + pyval" where
  "get_method v k dflt =
     (case v of
        PDict d \<Rightarrow> Inr (case map_of d k of None \<Rightarrow> dflt | Some x \<Rightarrow> x)
      | _ \<Rightarrow> Inl AttributeError)"

section \<open>Tables, estimators and files\<close>

text \<open>
  A pandas table: its row labels and its columns in order, each with a name, the kind of
  its dtype (what \<^verbatim>\<open>select_dtypes\<close> tells apart) and its cells. A label column is a
  \<open>series\<close>. A missing cell is \<open>PNone\<close> or \<open>PFloat NaN\<close>.
\<close>

datatype dtype = Number | Boolean | Other

record series =
  s_index :: "nat list"
  s_dtype :: dtype
  s_values :: "pyval list"

record dataframe =
  df_index :: "nat list"
  df_columns :: "(string \<times> dtype \<times> pyval list) list"

text \<open>
  Rows taken by position, as \<^verbatim>\<open>iloc\<close> or scikit-learn's indexing takes them: each row
  keeps its label.
\<close>

definition take_rows :: "dataframe \<Rightarrow> nat list \<Rightarrow> dataframe" where
  "take_rows X rows =
     \<lparr>df_index = map (\<lambda>i. df_index X ! i) rows,
      df_columns = map (\<lambda>(n, dt, cells). (n, dt, map (\<lambda>i. cells ! i) rows)) (df_columns X)\<rparr>"

definition take_labels :: "series \<Rightarrow> nat list \<Rightarrow> series" where
  "take_labels y rows =
     \<lparr>s_index = map (\<lambda>i. s_index y ! i) rows, s_dtype = s_dtype y,
      s_values = map (\<lambda>i. s_values y ! i) rows\<rparr>"

text \<open>
  scikit-learn objects are data: what was constructed, with which arguments. A fitted
  model is the description of the fit that produced it.
\<close>

datatype step = SimpleImputer string | StandardScaler | OneHotEncoder string bool

datatype remainder = Drop | Keep

datatype preprocessor =
    Passthrough
  | ColumnTransformer "(string \<times> (string \<times> step) list \<times> string list) list" remainder

datatype estimator =
    RandomForestClassifier int int
  | LogisticRegression int int

datatype pipeline = Pipeline preprocessor estimator

datatype fitted =
    Fit pipeline dataframe series
  | BestOfGrid pipeline pydict int string dataframe series

text \<open>
  The file system: the files by path, each holding a parsed document (JSON or YAML), a
  table (CSV), a serialized model or text, and the directories that exist. A path is
  its string, and \<^verbatim>\<open>p / name\<close> appends a component. Reading a file as the wrong kind
  fails. Failures of the operating system (permissions, a file where a directory is
  expected) are outside the model.
\<close>

type_synonym path = string

definition joinpath :: "path \<Rightarrow> string \<Rightarrow> path" where
  "joinpath p name = p @ ''/'' @ name"

definition parent :: "path \<Rightarrow> path" where
  "parent p = rev (drop 1 (dropWhile (\<lambda>c. c \<noteq> CHR ''/'') (rev p)))"

datatype content = Doc pyval | Csv dataframe | ModelFile fitted | Text string

record fs =
  files :: "path \<Rightarrow> content option"
  dirs :: "path set"

text \<open>
  Lines 104-118.
  \<^verbatim>\<open>
  def ensure_dir(path):
      path.mkdir(parents=True, exist_ok=True)

  def write_json(path, payload):
      ensure_dir(path.parent)
      with path.open("w", encoding="utf-8") as f:
          json.dump(payload, f, indent=2, sort_keys=True)

  def read_json(path):
      if not path.exists():
          return {}
      with path.open("r", encoding="utf-8") as f:
          return json.load(f)
  \<close>
  \<^verbatim>\<open>sort_keys\<close> orders the keys in the file; every reader looks keys up by name, so
  the order is not kept in the model.
\<close>

definition ensure_dir :: "path \<Rightarrow> fs \<Rightarrow> fs" where
  "ensure_dir p s = s\<lparr>dirs := insert p (dirs s)\<rparr>"

definition write_json :: "path \<Rightarrow> pydict \<Rightarrow> fs \<Rightarrow> fs" where
  "write_json p payload s =
     (let s1 = ensure_dir (parent p) s
      in s1\<lparr>files := (files s1)(p \<mapsto> Doc (PDict payload))\<rparr>)"

definition read_json :: "path \<Rightarrow> fs \<Rightarrow> error + pyval" where
  "read_json p s =
     (case files s p of
        None \<Rightarrow> Inr (PDict [])
      | Some (Doc v) \<Rightarrow> Inr v
      | Some _ \<Rightarrow> Inl JSONDecodeError)"

text \<open>\<^verbatim>\<open>shutil.copy2(src, dst)\<close>: the source must exist and must not be the destination.\<close>

definition copy2 :: "path \<Rightarrow> path \<Rightarrow> fs \<Rightarrow> error + fs" where
  "copy2 src dst s =
     (case files s src of
        None \<Rightarrow> Inl (FileNotFoundError src)
      | Some c \<Rightarrow> if src = dst then Inl SameFileError
                  else Inr (s\<lparr>files := (files s)(dst \<mapsto> c)\<rparr>))"

text \<open>\<^verbatim>\<open>Path(v)\<close> accepts a string only.\<close>

definition to_path :: "pyval \<Rightarrow> error + path" where
  "to_path v = (case v of PStr s \<Rightarrow> Inr s | _ \<Rightarrow> Inl TypeError)"

section \<open>Config Resolver: \<^verbatim>\<open>deep_merge\<close> (lines 77-84)\<close>

text \<open>
  \<^verbatim>\<open>
  def deep_merge(base, override):
      out = dict(base)
      for key, value in override.items():
          if key in out and isinstance(out[key], dict) and isinstance(value, dict):
              out[key] = deep_merge(out[key], value)
          else:
              out[key] = value
      return out
  \<close>
  The loop is \<open>deep_merge_loop\<close>, with \<open>out\<close> as its state. An assignment
  \<^verbatim>\<open>out[key] = v\<close> replaces the value of a key that is present, in place, and appends a
  new key at the end: that is \<^const>\<open>AList.update\<close>. The arguments are never mutated
  (\<^verbatim>\<open>dict(base)\<close> is a copy, and only \<open>out\<close> is assigned to), so sharing between the
  arguments and the result is not observable.
\<close>

fun deep_merge_loop :: "pydict \<Rightarrow> pydict \<Rightarrow> pydict" where
  "deep_merge_loop out [] = out"
| "deep_merge_loop out ((key, value) # rest) =
     deep_merge_loop
       (case (map_of out key, value) of
          (Some (PDict b), PDict ov) \<Rightarrow> AList.update key (PDict (deep_merge_loop b ov)) out
        | _ \<Rightarrow> AList.update key value out)
       rest"

definition deep_merge :: "pydict \<Rightarrow> pydict \<Rightarrow> pydict" where
  "deep_merge base override = deep_merge_loop base override"

text \<open>
  What the type \<^verbatim>\<open>dict\<close> guarantees of an override: no key twice, at any depth that
  the merge descends to (\<open>deep_merge\<close> never looks inside a list).
\<close>

fun distinct_keys :: "pydict \<Rightarrow> bool" where
  "distinct_keys [] = True"
| "distinct_keys ((k, v) # rest) =
     (k \<notin> fst ` set rest \<and>
      (case v of PDict d \<Rightarrow> distinct_keys d | _ \<Rightarrow> True) \<and>
      distinct_keys rest)"

text \<open>
  \<open>walk d ks\<close> follows the keys \<open>ks\<close> down nested mappings: \<^verbatim>\<open>d[k1][k2]...\<close>, defined
  as long as every step lands on a mapping.
\<close>

fun walk :: "pydict \<Rightarrow> string list \<Rightarrow> pydict option" where
  "walk d [] = Some d"
| "walk d (k # ks) = (case map_of d k of Some (PDict s) \<Rightarrow> walk s ks | _ \<Rightarrow> None)"

text \<open>
  \<open>absorbed out ov\<close>: every entry of \<open>ov\<close> is already in \<open>out\<close>, nested mappings
  compared entry by entry. Merging such an \<open>ov\<close> into \<open>out\<close> changes nothing.
\<close>

fun absorbed :: "pydict \<Rightarrow> pydict \<Rightarrow> bool" where
  "absorbed out [] = True"
| "absorbed out ((k, v) # rest) =
     ((case v of
         PDict ov \<Rightarrow> (case map_of out k of Some (PDict b) \<Rightarrow> absorbed b ov | _ \<Rightarrow> False)
       | _ \<Rightarrow> map_of out k = Some v) \<and>
      absorbed out rest)"

text \<open>The value that one iteration of the loop stores under its key.\<close>

definition merged_value :: "pyval option \<Rightarrow> pyval \<Rightarrow> pyval" where
  "merged_value old v =
     (case (old, v) of
        (Some (PDict b), PDict ov) \<Rightarrow> PDict (deep_merge_loop b ov)
      | _ \<Rightarrow> v)"

section \<open>Promotion Gate: \<^verbatim>\<open>maybe_promote\<close> (lines 312-338)\<close>

text \<open>
  \<^verbatim>\<open>
  def maybe_promote(model_path, metrics, config, run_id):
      base_dir = Path(config["artifacts"]["base_dir"])
      production_dir = base_dir / "production"
      ensure_dir(production_dir)

      threshold = float(config["training"].get("min_accuracy_to_promote", 0.85))
      prod_metrics_path = production_dir / "metrics.json"
      previous_metrics = read_json(prod_metrics_path)
      previous_accuracy = float(previous_metrics.get("accuracy", -1.0))
      current_accuracy = float(metrics.get("accuracy", 0.0))

      promote = current_accuracy >= threshold and current_accuracy >= previous_accuracy
      promotion = {"promoted": promote, "threshold": threshold,
                   "previous_accuracy": previous_accuracy,
                   "current_accuracy": current_accuracy}
      if not promote:
          return promotion

      shutil.copy2(model_path, production_dir / "model.joblib")
      out_metrics = dict(metrics)
      out_metrics["run_id"] = run_id
      out_metrics["promoted_at"] = utc_now_iso()
      write_json(prod_metrics_path, out_metrics)
      return promotion
  \<close>
  The four values the function reads are definitions of their own: \<open>base_dir_of\<close>
  (line 313), \<open>promote_threshold\<close> (line 317), \<open>previous_accuracy_of\<close> (lines 319-320)
  and \<open>current_accuracy_of\<close> (line 321). The clock (\<^verbatim>\<open>utc_now_iso()\<close>) is the argument
  \<open>now\<close>. The result is the returned record or the exception, with the file system as
  the call left it.
\<close>

definition base_dir_of :: "pydict \<Rightarrow> error + path" where
  "base_dir_of config =
     and_then (getitem (PDict config) ''artifacts'') (\<lambda>a.
     and_then (getitem a ''base_dir'') to_path)"

definition promote_threshold :: "pylib \<Rightarrow> pydict \<Rightarrow> error + pyfloat" where
  "promote_threshold L config =
     and_then (getitem (PDict config) ''training'') (\<lambda>t.
     and_then (get_method t ''min_accuracy_to_promote'' (PFloat (Fin (85 / 100)))) (py_float L))"

definition previous_accuracy_of :: "pylib \<Rightarrow> path \<Rightarrow> fs \<Rightarrow> error + pyfloat" where
  "previous_accuracy_of L prod_metrics_path s =
     and_then (read_json prod_metrics_path s) (\<lambda>previous_metrics.
     and_then (get_method previous_metrics ''accuracy'' (PFloat (Fin (- 1)))) (py_float L))"

definition current_accuracy_of :: "pylib \<Rightarrow> pydict \<Rightarrow> error + pyfloat" where
  "current_accuracy_of L metrics =
     and_then (get_method (PDict metrics) ''accuracy'' (PFloat (Fin 0))) (py_float L)"

definition maybe_promote ::
  "pylib \<Rightarrow> string \<Rightarrow> path \<Rightarrow> pydict \<Rightarrow> pydict \<Rightarrow> string \<Rightarrow> fs \<Rightarrow> (error + pydict) \<times> fs" where
  "maybe_promote L now model_path metrics config run_id s =
     (case base_dir_of config of
        Inl e \<Rightarrow> (Inl e, s)
      | Inr base_dir \<Rightarrow>
          let production_dir = joinpath base_dir ''production'';
              s1 = ensure_dir production_dir s;
              prod_metrics_path = joinpath production_dir ''metrics.json''
          in
          (case promote_threshold L config of
             Inl e \<Rightarrow> (Inl e, s1)
           | Inr threshold \<Rightarrow>
          (case previous_accuracy_of L prod_metrics_path s1 of
             Inl e \<Rightarrow> (Inl e, s1)
           | Inr previous_accuracy \<Rightarrow>
          (case current_accuracy_of L metrics of
             Inl e \<Rightarrow> (Inl e, s1)
           | Inr current_accuracy \<Rightarrow>
              let promote = (float_ge current_accuracy threshold \<and>
                             float_ge current_accuracy previous_accuracy);
                  promotion = [(''promoted'', PBool promote),
                               (''threshold'', PFloat threshold),
                               (''previous_accuracy'', PFloat previous_accuracy),
                               (''current_accuracy'', PFloat current_accuracy)]
              in
              if \<not> promote then (Inr promotion, s1)
              else
                (case copy2 model_path (joinpath production_dir ''model.joblib'') s1 of
                   Inl e \<Rightarrow> (Inl e, s1)
                 | Inr s2 \<Rightarrow>
                     let out_metrics =
                           AList.update ''promoted_at'' (PStr now)
                             (AList.update ''run_id'' (PStr run_id) metrics)
                     in (Inr promotion, write_json prod_metrics_path out_metrics s2))))))"

text \<open>The two files of the production slot.\<close>

definition prod_metrics_path_of :: "path \<Rightarrow> path" where
  "prod_metrics_path_of base_dir = joinpath (joinpath base_dir ''production'') ''metrics.json''"

definition prod_model_path_of :: "path \<Rightarrow> path" where
  "prod_model_path_of base_dir = joinpath (joinpath base_dir ''production'') ''model.joblib''"





section \<open>Configuration file: \<^verbatim>\<open>DEFAULT_CONFIG\<close> and \<^verbatim>\<open>load_config\<close> (lines 33-92)\<close>

definition DEFAULT_CONFIG :: pydict where
  "DEFAULT_CONFIG =
     [(''dataset'', PDict
         [(''input_csv'', PStr ''''),
          (''target_column'', PStr ''target''),
          (''drop_columns'', PList []),
          (''test_size'', PFloat (Fin (2 / 10))),
          (''random_state'', PInt 42)]),
      (''preprocess'', PDict
         [(''numeric_imputer'', PStr ''median''),
          (''categorical_imputer'', PStr ''most_frequent''),
          (''scale_numeric'', PBool True)]),
      (''model'', PDict [(''type'', PStr ''random_forest'')]),
      (''hpo'', PDict
         [(''enabled'', PBool True),
          (''cv_folds'', PInt 3),
          (''scoring'', PStr ''f1_weighted''),
          (''param_grid'', PDict [])]),
      (''training'', PDict [(''min_accuracy_to_promote'', PFloat (Fin (85 / 100)))]),
      (''artifacts'', PDict [(''base_dir'', PStr ''ml/artifacts'')]),
      (''api'', PDict [(''bearer_token'', PStr '''')]),
      (''schedule'', PDict [(''cron'', PStr ''0 3 * * 1'')]),
      (''calendar'', PDict
         [(''ics_path'', PStr ''''),
          (''ics_url'', PStr ''''),
          (''event_keyword'', PStr ''OpenAgents Retrain''),
          (''lookahead_minutes'', PInt 30),
          (''poll_seconds'', PInt 60)])]"

text \<open>
  \<^verbatim>\<open>
  def load_config(config_path):
      if not config_path.exists():
          raise FileNotFoundError(f"Config file not found: {config_path}")
      with config_path.open("r", encoding="utf-8") as f:
          loaded = yaml.safe_load(f) or {}
      return deep_merge(DEFAULT_CONFIG, loaded)
  \<close>
  A document that is true and not a mapping has no \<^verbatim>\<open>items\<close>: \<^verbatim>\<open>AttributeError\<close>.
\<close>

definition load_config :: "path \<Rightarrow> fs \<Rightarrow> error + pydict" where
  "load_config config_path s =
     (case files s config_path of
        None \<Rightarrow> Inl (FileNotFoundError (''Config file not found: '' @ config_path))
      | Some (Doc v) \<Rightarrow>
          (case (if py_bool v then v else PDict []) of
             PDict loaded \<Rightarrow> Inr (deep_merge DEFAULT_CONFIG loaded)
           | _ \<Rightarrow> Inl AttributeError)
      | Some _ \<Rightarrow> Inl (LibraryError ''yaml.safe_load''))"

section \<open>HTTP trigger: \<^verbatim>\<open>authorize\<close> and \<^verbatim>\<open>trigger_train\<close> (lines 573-594)\<close>

text \<open>
  \<^verbatim>\<open>
  def authorize(authorization: str | None, token_required: str) -> None:
      if not token_required:
          return
      if not authorization:
          raise HTTPException(status_code=401, detail="Missing Authorization header")
      if not authorization.startswith("Bearer "):
          raise HTTPException(status_code=401, detail="Authorization must use Bearer token")
      token = authorization.split(" ", 1)[1].strip()
      if token != token_required:
          raise HTTPException(status_code=403, detail="Invalid bearer token")
  \<close>
  \<open>split_once\<close> is \<^verbatim>\<open>split(" ", 1)\<close>: at the first space, if there is one.
\<close>

definition split_once :: "string \<Rightarrow> string list" where
  "split_once a =
     (case dropWhile (\<lambda>c. c \<noteq> CHR '' '') a of
        [] \<Rightarrow> [a]
      | sp # rest \<Rightarrow> [takeWhile (\<lambda>c. c \<noteq> CHR '' '') a, rest])"

definition authorize :: "pylib \<Rightarrow> string option \<Rightarrow> string \<Rightarrow> error + unit" where
  "authorize L authorization token_required =
     (if token_required = [] then Inr ()
      else
        (case authorization of
           None \<Rightarrow> Inl (HTTPException 401 ''Missing Authorization header'')
         | Some a \<Rightarrow>
             if a = [] then Inl (HTTPException 401 ''Missing Authorization header'')
             else if \<not> prefix ''Bearer '' a
               then Inl (HTTPException 401 ''Authorization must use Bearer token'')
             else
               (case split_once a of
                  [scheme, rest] \<Rightarrow>
                    if strip L rest \<noteq> token_required
                    then Inl (HTTPException 403 ''Invalid bearer token'')
                    else Inr ()
                | _ \<Rightarrow> Inl IndexError)))"

text \<open>
  \<^verbatim>\<open>
  @app.post("/train")
  def trigger_train(authorization: str | None = Header(default=None)):
      cfg = load_config(config_path)
      token_required = str(cfg.get("api", {}).get("bearer_token", "")).strip()
      authorize(authorization, token_required)
      summary = run_pipeline(cfg, reason="api")
      return {"ok": True, "run_id": summary["run_id"], "metrics": summary["metrics"]}
  \<close>
  \<open>configured_token\<close> is line 591 and \<open>train_response\<close> line 594. The pipeline that the
  endpoint starts is an argument: whatever it does, it is called with the configuration
  and the reason \<^verbatim>\<open>"api"\<close>, or not at all.
\<close>

type_synonym pipeline_runner = "pydict \<Rightarrow> string \<Rightarrow> fs \<Rightarrow> (error + pydict) \<times> fs"

definition configured_token :: "pylib \<Rightarrow> pydict \<Rightarrow> error + string" where
  "configured_token L cfg =
     and_then (get_method (PDict cfg) ''api'' (PDict [])) (\<lambda>api.
     and_then (get_method api ''bearer_token'' (PStr '''')) (\<lambda>tv.
     Inr (strip L (py_str L tv))))"

definition train_response :: "pydict \<Rightarrow> error + pydict" where
  "train_response summary =
     and_then (getitem (PDict summary) ''run_id'') (\<lambda>run_id.
     and_then (getitem (PDict summary) ''metrics'') (\<lambda>metrics.
     Inr [(''ok'', PBool True), (''run_id'', run_id), (''metrics'', metrics)]))"

definition trigger_train ::
  "pylib \<Rightarrow> pipeline_runner \<Rightarrow> path \<Rightarrow> string option \<Rightarrow> fs \<Rightarrow> (error + pydict) \<times> fs" where
  "trigger_train L run_pipeline config_path authorization s =
     (case load_config config_path s of
        Inl e \<Rightarrow> (Inl e, s)
      | Inr cfg \<Rightarrow>
          (case configured_token L cfg of
             Inl e \<Rightarrow> (Inl e, s)
           | Inr token_required \<Rightarrow>
               (case authorize L authorization token_required of
                  Inl e \<Rightarrow> (Inl e, s)
                | Inr u \<Rightarrow>
                    (case run_pipeline cfg ''api'' s of
                       (Inl e, s') \<Rightarrow> (Inl e, s')
                     | (Inr summary, s') \<Rightarrow> (train_response summary, s')))))"

section \<open>Snapshot: \<^verbatim>\<open>save_preprocess_snapshot\<close> (lines 284-309)\<close>

definition column_names :: "dataframe \<Rightarrow> string list" where
  "column_names df = map fst (df_columns df)"

text \<open>
  \<^verbatim>\<open>df[name] = values\<close> with an array of values: a column of that name is overwritten
  where it stands, otherwise the column is appended as the last one. The array must be
  as long as the index; only a table without rows takes its rows from the array, its
  other columns then hold missing cells.
\<close>

definition set_column :: "dataframe \<Rightarrow> string \<Rightarrow> dtype \<Rightarrow> pyval list \<Rightarrow> error + dataframe" where
  "set_column df name dt vals =
     (let df0 = (if df_index df = [] \<and> vals \<noteq> []
                 then \<lparr>df_index = [0..<length vals],
                       df_columns = map (\<lambda>(n, d, cells). (n, d, replicate (length vals) (PFloat NaN)))
                                      (df_columns df)\<rparr>
                 else df)
      in if length vals \<noteq> length (df_index df0)
         then Inl (ValueError ''Length of values does not match length of index'')
         else Inr (df0\<lparr>df_columns :=
                (if name \<in> set (column_names df0)
                 then map (\<lambda>(n, c). if n = name then (n, dt, vals) else (n, c)) (df_columns df0)
                 else df_columns df0 @ [(name, dt, vals)])\<rparr>))"

text \<open>\<^verbatim>\<open>df.to_csv(path, index=False)\<close>: the row labels are not written.\<close>

definition to_csv :: "dataframe \<Rightarrow> path \<Rightarrow> fs \<Rightarrow> fs" where
  "to_csv df p s =
     s\<lparr>files := (files s)(p \<mapsto> Csv (df\<lparr>df_index := [0..<length (df_index df)]\<rparr>))\<rparr>"

text \<open>
  \<^verbatim>\<open>
  def save_preprocess_snapshot(X_train, X_test, y_train, y_test, run_dir):
      preprocessed_dir = run_dir / "preprocessed"
      ensure_dir(preprocessed_dir)

      train_df = X_train.copy()
      train_df["target"] = y_train.values
      test_df = X_test.copy()
      test_df["target"] = y_test.values

      train_csv = preprocessed_dir / "train.csv"
      test_csv = preprocessed_dir / "test.csv"
      train_df.to_csv(train_csv, index=False)
      test_df.to_csv(test_csv, index=False)

      return {"train_csv": str(train_csv), "test_csv": str(test_csv),
              "train_rows": int(len(train_df)), "test_rows": int(len(test_df))}
  \<close>
  The function takes no configuration: the name \<^verbatim>\<open>"target"\<close> is a literal.
\<close>

definition save_preprocess_snapshot ::
  "dataframe \<Rightarrow> dataframe \<Rightarrow> series \<Rightarrow> series \<Rightarrow> path \<Rightarrow> fs \<Rightarrow> (error + pydict) \<times> fs" where
  "save_preprocess_snapshot X_train X_test y_train y_test run_dir s =
     (let preprocessed_dir = joinpath run_dir ''preprocessed'';
          s1 = ensure_dir preprocessed_dir s
      in
      (case set_column X_train ''target'' (s_dtype y_train) (s_values y_train) of
         Inl e \<Rightarrow> (Inl e, s1)
       | Inr train_df \<Rightarrow>
      (case set_column X_test ''target'' (s_dtype y_test) (s_values y_test) of
         Inl e \<Rightarrow> (Inl e, s1)
       | Inr test_df \<Rightarrow>
          let train_csv = joinpath preprocessed_dir ''train.csv'';
              test_csv = joinpath preprocessed_dir ''test.csv'';
              s2 = to_csv train_df train_csv s1;
              s3 = to_csv test_df test_csv s2
          in (Inr [(''train_csv'', PStr train_csv),
                   (''test_csv'', PStr test_csv),
                   (''train_rows'', PInt (int (length (df_index train_df)))),
                   (''test_rows'', PInt (int (length (df_index test_df))))],
              s3))))"

text \<open>
  What a persisted snapshot \<open>written\<close> of the features \<open>X\<close> and the labels \<open>y\<close> looks
  like: the columns of \<open>X\<close> in their order, with a last column \<^verbatim>\<open>target\<close> added unless
  \<open>X\<close> has a column of that name; every column named \<^verbatim>\<open>target\<close> holds the label
  values; every other column is the one of \<open>X\<close>.
\<close>

definition snapshot_of :: "dataframe \<Rightarrow> series \<Rightarrow> dataframe \<Rightarrow> bool" where
  "snapshot_of X y written =
     (column_names written =
        (if ''target'' \<in> set (column_names X) then column_names X
         else column_names X @ [''target'']) \<and>
      list_all (\<lambda>(n, c). n \<noteq> ''target'' \<or> c = (s_dtype y, s_values y)) (df_columns written) \<and>
      filter (\<lambda>(n, c). n \<noteq> ''target'') (df_columns written) =
        filter (\<lambda>(n, c). n \<noteq> ''target'') (df_columns X) \<and>
      map_of (df_columns written) ''target'' = Some (s_dtype y, s_values y))"

section \<open>Preprocessing Pipeline Builder: \<^verbatim>\<open>build_preprocessor\<close> (lines 164-191)\<close>

text \<open>
  \<^verbatim>\<open>
  def build_preprocessor(X, config):
      preprocess_cfg = config["preprocess"]
      num_imputer = str(preprocess_cfg.get("numeric_imputer", "median"))
      cat_imputer = str(preprocess_cfg.get("categorical_imputer", "most_frequent"))
      scale_numeric = bool(preprocess_cfg.get("scale_numeric", True))

      numeric_cols = X.select_dtypes(include=["number", "bool"]).columns.tolist()
      categorical_cols = [c for c in X.columns if c not in numeric_cols]

      transformers = []
      if numeric_cols:
          numeric_steps = [("imputer", SimpleImputer(strategy=num_imputer))]
          if scale_numeric:
              numeric_steps.append(("scaler", StandardScaler()))
          transformers.append(("numeric", Pipeline(steps=numeric_steps), numeric_cols))

      if categorical_cols:
          cat_steps = Pipeline(steps=[
              ("imputer", SimpleImputer(strategy=cat_imputer)),
              ("encoder", OneHotEncoder(handle_unknown="ignore", sparse_output=False)),
          ])
          transformers.append(("categorical", cat_steps, categorical_cols))

      if not transformers:
          return "passthrough"
      return ColumnTransformer(transformers=transformers, remainder="drop")
  \<close>
  \<open>numeric_cols\<close> is line 170 and \<open>categorical_cols\<close> line 171: the second is decided
  by the column's name, not by its dtype.
\<close>

definition numeric_cols :: "dataframe \<Rightarrow> string list" where
  "numeric_cols X =
     map fst (filter (\<lambda>(n, dt, cells). dt = Number \<or> dt = Boolean) (df_columns X))"

definition categorical_cols :: "dataframe \<Rightarrow> string list" where
  "categorical_cols X = filter (\<lambda>c. c \<notin> set (numeric_cols X)) (column_names X)"

definition build_preprocessor :: "pylib \<Rightarrow> dataframe \<Rightarrow> pydict \<Rightarrow> error + preprocessor" where
  "build_preprocessor L X config =
     and_then (getitem (PDict config) ''preprocess'') (\<lambda>preprocess_cfg.
     and_then (get_method preprocess_cfg ''numeric_imputer'' (PStr ''median'')) (\<lambda>ni.
     and_then (get_method preprocess_cfg ''categorical_imputer'' (PStr ''most_frequent'')) (\<lambda>ci.
     and_then (get_method preprocess_cfg ''scale_numeric'' (PBool True)) (\<lambda>sn.
       let num_imputer = py_str L ni;
           cat_imputer = py_str L ci;
           scale_numeric = py_bool sn;
           transformers =
             (if numeric_cols X \<noteq> []
              then [(''numeric'',
                     [(''imputer'', SimpleImputer num_imputer)] @
                     (if scale_numeric then [(''scaler'', StandardScaler)] else []),
                     numeric_cols X)]
              else []) @
             (if categorical_cols X \<noteq> []
              then [(''categorical'',
                     [(''imputer'', SimpleImputer cat_imputer),
                      (''encoder'', OneHotEncoder ''ignore'' False)],
                     categorical_cols X)]
              else [])
       in Inr (if transformers = [] then Passthrough
               else ColumnTransformer transformers Drop)))))"

text \<open>What a preprocessor routes where: the columns of each transform, and the remainder.\<close>

fun routed_columns :: "preprocessor \<Rightarrow> (string \<times> string list) list" where
  "routed_columns Passthrough = []"
| "routed_columns (ColumnTransformer ts r) = map (\<lambda>(name, steps, cols). (name, cols)) ts"

fun remainder_of :: "preprocessor \<Rightarrow> remainder option" where
  "remainder_of Passthrough = None"
| "remainder_of (ColumnTransformer ts r) = Some r"

section \<open>Model Trainer: \<^verbatim>\<open>build_model\<close>, the parameter grids and \<^verbatim>\<open>train_model\<close> (lines 194-269)\<close>

text \<open>
  What scikit-learn computes is a parameter of the model as well: whether fitting a
  pipeline raises (\<open>fit_fails\<close>), what a grid search finds, its best score and best
  parameters, or the exception it raises (\<open>grid_search\<close>), what \<^verbatim>\<open>train_test_split\<close>
  decides at random (\<open>split_plan\<close>: from the source of randomness, the row count,
  \<^verbatim>\<open>test_size\<close> and the labels to stratify by, the size of the test part and the random
  draws, or the exception it raises), and the built-in dataset. The source of randomness
  is the seed of a \<^verbatim>\<open>random_state\<close>, or the global generator in a given state.
\<close>

datatype random_source = Seeded int | Global nat

record sklib =
  fit_fails :: "pipeline \<Rightarrow> dataframe \<Rightarrow> series \<Rightarrow> error option"
  grid_search ::
    "pipeline \<Rightarrow> pydict \<Rightarrow> int \<Rightarrow> string \<Rightarrow> dataframe \<Rightarrow> series \<Rightarrow> error + (pyfloat \<times> pydict)"
  split_plan ::
    "random_source \<Rightarrow> nat \<Rightarrow> pyfloat \<Rightarrow> pyval list option \<Rightarrow> error + (nat \<times> nat list)"
  load_breast_cancer :: "dataframe \<times> series"











text \<open>\<^verbatim>\<open>d.get(k, default)\<close> on a mapping.\<close>

definition dict_get :: "pydict \<Rightarrow> string \<Rightarrow> pyval \<Rightarrow> pyval" where
  "dict_get d k dflt = (case map_of d k of None \<Rightarrow> dflt | Some x \<Rightarrow> x)"

section \<open>Dataset Provider: \<^verbatim>\<open>load_dataset\<close> and \<^verbatim>\<open>split_dataset\<close> (lines 121-161)\<close>

text \<open>
  \<^verbatim>\<open>pd.read_csv(path)\<close>, \<^verbatim>\<open>df[name]\<close> and \<^verbatim>\<open>df.drop(columns=names, errors="ignore")\<close>.
  A file that is not a table does not parse. \<^verbatim>\<open>read_csv\<close> never returns two columns
  of one name, so \<^verbatim>\<open>df[name]\<close> is the one column of that name.
\<close>

definition read_csv :: "path \<Rightarrow> fs \<Rightarrow> error + dataframe" where
  "read_csv p s =
     (case files s p of
        None \<Rightarrow> Inl (FileNotFoundError p)
      | Some (Csv df) \<Rightarrow> Inr df
      | Some _ \<Rightarrow> Inl (LibraryError ''read_csv''))"

definition get_column :: "dataframe \<Rightarrow> string \<Rightarrow> error + series" where
  "get_column df name =
     (case map_of (df_columns df) name of
        None \<Rightarrow> Inl (KeyError name)
      | Some (dt, cells) \<Rightarrow> Inr \<lparr>s_index = df_index df, s_dtype = dt, s_values = cells\<rparr>)"

definition drop_columns_of :: "dataframe \<Rightarrow> string list \<Rightarrow> dataframe" where
  "drop_columns_of df names =
     df\<lparr>df_columns := filter (\<lambda>(n, c). n \<notin> set names) (df_columns df)\<rparr>"

text \<open>
  \<^verbatim>\<open>
  def load_dataset(config):
      dataset_cfg = config["dataset"]
      input_csv = str(dataset_cfg.get("input_csv", "")).strip()
      target_column = str(dataset_cfg.get("target_column", "target")).strip()
      drop_columns = [str(x) for x in dataset_cfg.get("drop_columns", [])]

      if input_csv:
          csv_path = Path(input_csv)
          if not csv_path.exists():
              raise FileNotFoundError(f"Dataset CSV not found: {csv_path}")
          df = pd.read_csv(csv_path)
          if target_column not in df.columns:
              raise ValueError(f"Target column '{target_column}' not found in {csv_path}")
          y = df[target_column]
          X = df.drop(columns=[target_column], errors="ignore")
          if drop_columns:
              X = X.drop(columns=drop_columns, errors="ignore")
          return X, y

      # Fallback sample dataset for quick local automation bootstrap.
      sk = load_breast_cancer(as_frame=True)
      X = sk.data.copy()
      y = sk.target.copy()
      return X, y
  \<close>
\<close>

definition load_dataset :: "pylib \<Rightarrow> sklib \<Rightarrow> pydict \<Rightarrow> fs \<Rightarrow> error + (dataframe \<times> series)" where
  "load_dataset L K config s =
     and_then (getitem (PDict config) ''dataset'') (\<lambda>dataset_cfg.
     and_then (get_method dataset_cfg ''input_csv'' (PStr '''')) (\<lambda>ic.
     let input_csv = strip L (py_str L ic) in
     and_then (get_method dataset_cfg ''target_column'' (PStr ''target'')) (\<lambda>tc.
     let target_column = strip L (py_str L tc) in
     and_then (get_method dataset_cfg ''drop_columns'' (PList [])) (\<lambda>dc.
     and_then (py_iter dc) (\<lambda>xs.
     let drop_columns = map (py_str L) xs in
       if input_csv \<noteq> [] then
         (if files s input_csv = None
          then Inl (FileNotFoundError (''Dataset CSV not found: '' @ input_csv))
          else
            and_then (read_csv input_csv s) (\<lambda>df.
              if target_column \<notin> set (column_names df)
              then Inl (ValueError (''Target column '' @ [CHR 0x27] @ target_column @ [CHR 0x27] @
                                    '' not found in '' @ input_csv))
              else
                and_then (get_column df target_column) (\<lambda>y.
                let X = drop_columns_of df [target_column];
                    X = (if drop_columns \<noteq> [] then drop_columns_of X drop_columns else X)
                in Inr (X, y))))
       else Inr (load_breast_cancer K))))))"

text \<open>
  \<^verbatim>\<open>
  def split_dataset(X, y, config):
      dataset_cfg = config["dataset"]
      test_size = float(dataset_cfg.get("test_size", 0.2))
      random_state = int(dataset_cfg.get("random_state", 42))
      return train_test_split(
          X, y,
          test_size=test_size,
          random_state=random_state,
          stratify=y if y.nunique() > 1 else None,
      )
  \<close>
  \<^verbatim>\<open>y.nunique()\<close> counts the distinct values of the labels, missing cells left out
  (pandas' default). Two cells hold one value when Python finds them equal and of equal
  hash: \<^verbatim>\<open>True\<close>, \<^verbatim>\<open>1\<close> and \<^verbatim>\<open>1.0\<close> are one value, \<^verbatim>\<open>False\<close>, \<^verbatim>\<open>0\<close> and \<^verbatim>\<open>0.0\<close> are one
  value, an integer and a float are one value when they denote the same number, and a
  string equals no number. \<open>hash_key\<close> maps every cell to the representative of its
  value. A cell that cannot be hashed (a list, a dict) makes the count raise
  \<^verbatim>\<open>TypeError\<close>, missing cells or not.
\<close>

definition is_na :: "pyval \<Rightarrow> bool" where
  "is_na v = (v = PNone \<or> v = PFloat NaN)"

fun hashable :: "pyval \<Rightarrow> bool" where
  "hashable (PList xs) = False"
| "hashable (PDict d) = False"
| "hashable v = True"

fun hash_key :: "pyval \<Rightarrow> pyval" where
  "hash_key (PBool b) = PFloat (Fin (if b then 1 else 0))"
| "hash_key (PInt i) = PFloat (Fin (of_int i))"
| "hash_key v = v"

definition nunique :: "series \<Rightarrow> error + nat" where
  "nunique y =
     (if list_all hashable (s_values y)
      then Inr (length (remdups (map hash_key (filter (\<lambda>v. \<not> is_na v) (s_values y)))))
      else Inl TypeError)"

text \<open>
  Modelled from the spec: \<^verbatim>\<open>train_test_split\<close> is scikit-learn's; its code is not under
  \<^verbatim>\<open>src/\<close>, only its call in \<^verbatim>\<open>split_dataset\<close> is. The spec (3, 4.2): the dataset is
  ``split into disjoint train/test partitions with a fixed proportion and a fixed random
  seed''; the split ``partitions rows using a configured test fraction and random
  seed'' and ``must be exactly reproducible for a fixed seed and fixed input''.

  So the rows are put in an order and the order is cut: the first rows are the test
  part, the others the training part, and each part takes its rows from the features
  and from the labels by position. How many rows the test part gets, and the random
  draws that make the order, are the library's (\<open>split_plan\<close> of \<open>sklib\<close>): they depend
  on the source of randomness, the row count, \<^verbatim>\<open>test_size\<close> and the labels to stratify
  by, and the library may raise instead. With a \<^verbatim>\<open>random_state\<close> the source of
  randomness is that seed, without one it is the global generator in its state \<open>g\<close>.
  \<open>shuffle\<close> makes an order from any draws: it inserts each row in turn at the drawn
  place among the rows ordered so far. Features and labels of different row counts are
  refused.
\<close>

fun shuffle :: "nat list \<Rightarrow> 'a list \<Rightarrow> 'a list" where
  "shuffle [] xs = xs"
| "shuffle (d # ds) [] = []"
| "shuffle (d # ds) (x # xs) =
     (let rest = shuffle ds xs; k = d mod (length rest + 1)
      in take k rest @ x # drop k rest)"

definition train_test_split ::
  "sklib \<Rightarrow> nat \<Rightarrow> dataframe \<Rightarrow> series \<Rightarrow> pyfloat \<Rightarrow> int option \<Rightarrow> series option \<Rightarrow>
   error + (dataframe \<times> dataframe \<times> series \<times> series)" where
  "train_test_split K g X y test_size random_state stratify =
     (let n = length (df_index X) in
      if length (s_index y) \<noteq> n
      then Inl (ValueError ''Found input variables with inconsistent numbers of samples'')
      else
        and_then (split_plan K (case random_state of Some seed \<Rightarrow> Seeded seed | None \<Rightarrow> Global g)
                    n test_size (map_option s_values stratify)) (\<lambda>(n_test, draws).
        let order = shuffle draws [0..<n];
            test = take n_test order;
            train = drop n_test order
        in Inr (take_rows X train, take_rows X test, take_labels y train, take_labels y test)))"

definition split_dataset ::
  "pylib \<Rightarrow> sklib \<Rightarrow> nat \<Rightarrow> dataframe \<Rightarrow> series \<Rightarrow> pydict \<Rightarrow>
   error + (dataframe \<times> dataframe \<times> series \<times> series)" where
  "split_dataset L K g X y config =
     and_then (getitem (PDict config) ''dataset'') (\<lambda>dataset_cfg.
     and_then (get_method dataset_cfg ''test_size'' (PFloat (Fin (2 / 10)))) (\<lambda>ts.
     and_then (py_float L ts) (\<lambda>test_size.
     and_then (get_method dataset_cfg ''random_state'' (PInt 42)) (\<lambda>rs.
     and_then (py_int L rs) (\<lambda>random_state.
     and_then (nunique y) (\<lambda>distinct_labels.
       train_test_split K g X y test_size (Some random_state)
         (if 1 < distinct_labels then Some y else None)))))))"

section \<open>Concrete inputs\<close>

text \<open>
  An instance of the built-ins that computes, for the examples: ASCII white space and
  ASCII letters, every integer converts to a float, no string parses as a number.
\<close>

definition strip_ascii :: "string \<Rightarrow> string" where
  "strip_ascii s =
     (let ws = (\<lambda>c. c \<in> set [CHR '' '', CHR 0x09, CHR 0x0A, CHR 0x0B, CHR 0x0C, CHR 0x0D])
      in rev (dropWhile ws (rev (dropWhile ws s))))"

definition lower_ascii :: "string \<Rightarrow> string" where
  "lower_ascii s =
     map (\<lambda>c. case map_of (zip ''ABCDEFGHIJKLMNOPQRSTUVWXYZ'' ''abcdefghijklmnopqrstuvwxyz'') c of
                 Some l \<Rightarrow> l
               | None \<Rightarrow> c) s"

definition example_lib :: pylib where
  "example_lib =
     \<lparr>repr_of = (\<lambda>v. ''<object>''),
      float_of_str = (\<lambda>s. None),
      float_of_int = (\<lambda>i. Some (Fin (of_int i))),
      int_of_str = (\<lambda>s. None),
      strip = strip_ascii,
      lower = lower_ascii\<rparr>"

definition example_config :: pydict where
  "example_config =
     [(''training'', PDict [(''min_accuracy_to_promote'', PFloat (Fin (85 / 100)))]),
      (''artifacts'', PDict [(''base_dir'', PStr ''ml/artifacts'')])]"

text \<open>A metrics record as \<^verbatim>\<open>evaluate_model\<close> builds it (lines 275-281).\<close>

definition example_metrics :: "rat \<Rightarrow> pydict" where
  "example_metrics a =
     [(''accuracy'', PFloat (Fin a)), (''precision_weighted'', PFloat (Fin a)),
      (''recall_weighted'', PFloat (Fin a)), (''f1_weighted'', PFloat (Fin a)),
      (''rows_tested'', PInt 114)]"

definition example_model :: fitted where
  "example_model =
     Fit (Pipeline Passthrough (RandomForestClassifier 200 42))
         \<lparr>df_index = [], df_columns = []\<rparr> \<lparr>s_index = [], s_dtype = Number, s_values = []\<rparr>"

text \<open>Three runs have written their model files; nothing was promoted yet.\<close>

definition example_fs :: fs where
  "example_fs =
     \<lparr>files = (\<lambda>p. if p \<in> set [''ml/artifacts/runs/r1/model.joblib'',
                                  ''ml/artifacts/runs/r2/model.joblib'',
                                  ''ml/artifacts/runs/r3/model.joblib'']
                    then Some (ModelFile example_model) else None),
      dirs = {}\<rparr>"


text \<open>A configuration file that sets the bearer token, and a pipeline that returns at once.\<close>

definition api_override :: pydict where
  "api_override = [(''api'', PDict [(''bearer_token'', PStr ''s3cret'')])]"

definition api_fs :: fs where
  "api_fs =
     \<lparr>files = (\<lambda>p. if p = ''ml/config.yaml'' then Some (Doc (PDict api_override)) else None),
      dirs = {}\<rparr>"

definition example_runner :: pipeline_runner where
  "example_runner cfg reason s =
     (Inr [(''run_id'', PStr ''20260105-030000-0a1b2c3d''), (''reason'', PStr reason),
           (''metrics'', PDict (example_metrics (90 / 100)))], s)"

text \<open>
  A split of a table whose label column is \<^verbatim>\<open>label\<close> and which has a feature named
  \<^verbatim>\<open>target\<close>: three training rows and one test row.
\<close>

definition example_X_train :: dataframe where
  "example_X_train =
     \<lparr>df_index = [2, 0, 3],
      df_columns = [(''age'', Number, [PInt 41, PInt 23, PInt 35]),
                    (''target'', Other, [PStr ''gold'', PStr ''basic'', PStr ''gold'']),
                    (''active'', Boolean, [PBool True, PBool False, PBool True])]\<rparr>"

definition example_X_test :: dataframe where
  "example_X_test =
     \<lparr>df_index = [1],
      df_columns = [(''age'', Number, [PInt 58]),
                    (''target'', Other, [PStr ''basic'']),
                    (''active'', Boolean, [PBool False])]\<rparr>"

definition example_y_train :: series where
  "example_y_train = \<lparr>s_index = [2, 0, 3], s_dtype = Number, s_values = [PInt 1, PInt 0, PInt 1]\<rparr>"

definition example_y_test :: series where
  "example_y_test = \<lparr>s_index = [1], s_dtype = Number, s_values = [PInt 0]\<rparr>"

text \<open>A table of two numeric-like columns around a categorical one, and a table of text only.\<close>

definition example_preprocess_config :: pydict where
  "example_preprocess_config = [(''preprocess'', PDict [(''scale_numeric'', PBool False)])]"

definition example_text_table :: dataframe where
  "example_text_table =
     \<lparr>df_index = [0, 1],
      df_columns = [(''city'', Other, [PStr ''Oslo'', PStr ''Lima''])]\<rparr>"

text \<open>
  A scikit-learn that never raises on two rows or more: a search reports score 0.93 and
  the first value of every parameter, a split puts one row into the test set and draws
  1, 0, 1, 0, ... when seeded.
\<close>

definition example_sk :: sklib where
  "example_sk =
     \<lparr>fit_fails = (\<lambda>estimator X y. None),
      grid_search = (\<lambda>estimator grid cv_folds scoring X y.
         Inr (Fin (93 / 100),
              map (\<lambda>(k, v). (k, case v of PList (x # xs) \<Rightarrow> x | _ \<Rightarrow> PNone)) grid)),
      split_plan = (\<lambda>source n test_size stratify.
         if n < 2 then Inl (ValueError ''the resulting train set will be empty'')
         else Inr (1, case source of
                        Seeded seed \<Rightarrow> map (\<lambda>i. (i + 1) mod 2) [0..<n]
                      | Global g \<Rightarrow> replicate n g)),
      load_breast_cancer =
        (\<lparr>df_index = [0, 1],
          df_columns = [(''mean radius'', Number, [PFloat (Fin (1799 / 100)), PFloat (Fin (2057 / 100))])]\<rparr>,
         \<lparr>s_index = [0, 1], s_dtype = Number, s_values = [PInt 0, PInt 1]\<rparr>)\<rparr>"


text \<open>A data file with the label column \<^verbatim>\<open>label\<close> and an identifier column to drop.\<close>

definition example_csv :: dataframe where
  "example_csv =
     \<lparr>df_index = [0, 1, 2, 3],
      df_columns = [(''id'', Number, [PInt 11, PInt 12, PInt 13, PInt 14]),
                    (''age'', Number, [PInt 23, PInt 58, PInt 41, PInt 35]),
                    (''label'', Number, [PInt 0, PInt 0, PInt 1, PInt 1]),
                    (''target'', Other, [PStr ''basic'', PStr ''basic'', PStr ''gold'', PStr ''gold''])]\<rparr>"

definition data_fs :: fs where
  "data_fs = \<lparr>files = (\<lambda>p. if p = ''data/train.csv'' then Some (Csv example_csv) else None), dirs = {}\<rparr>"

definition example_dataset_config :: pydict where
  "example_dataset_config =
     [(''dataset'', PDict
         [(''input_csv'', PStr '' data/train.csv''),
          (''target_column'', PStr ''label''),
          (''drop_columns'', PList [PStr ''id'', PStr ''missing''])])]"

text \<open>The features and the labels of the example data file.\<close>

definition example_X_full :: dataframe where
  "example_X_full =
     \<lparr>df_index = [0, 1, 2, 3],
      df_columns = [(''age'', Number, [PInt 23, PInt 58, PInt 41, PInt 35])]\<rparr>"

definition example_y_full :: series where
  "example_y_full =
     \<lparr>s_index = [0, 1, 2, 3], s_dtype = Number, s_values = [PInt 0, PInt 0, PInt 1, PInt 1]\<rparr>"

section \<open>Properties of \<^verbatim>\<open>deep_merge\<close>\<close>

lemma loop_step:
  "deep_merge_loop out ((k, v) # rest) =
     deep_merge_loop (AList.update k (merged_value (map_of out k) v) out) rest"
  by (auto simp: merged_value_def split: option.splits pyval.splits)

lemma absorbed_loop: "absorbed out ov \<Longrightarrow> deep_merge_loop out ov = out"
  by (induction out ov rule: absorbed.induct)
     (auto split: option.splits pyval.splits simp: update_triv)

lemma map_of_loop_other:
  "k \<notin> fst ` set ov \<Longrightarrow> map_of (deep_merge_loop out ov) k = map_of out k"
proof (induction ov arbitrary: out)
  case Nil
  then show ?case by simp
next
  case (Cons p ov)
  obtain k' v where p: "p = (k', v)" by (cases p)
  with Cons show ?case by (simp add: loop_step update_conv' del: deep_merge_loop.simps)
qed

lemma distinct_keys_sub:
  "distinct_keys d \<Longrightarrow> map_of d k = Some (PDict s) \<Longrightarrow> distinct_keys s"
  by (induction d rule: distinct_keys.induct) (auto split: if_splits)

lemma absorbed_cong:
  "(\<And>k. k \<in> fst ` set ov \<Longrightarrow> map_of out' k = map_of out k) \<Longrightarrow>
   absorbed out' ov = absorbed out ov"
  by (induction out ov rule: absorbed.induct) (auto split: option.splits pyval.splits)

lemma absorbed_self: "distinct_keys ov \<Longrightarrow> absorbed ov ov"
proof (induction ov rule: distinct_keys.induct)
  case 1
  then show ?case by simp
next
  case (2 k v rest)
  then have "absorbed ((k, v) # rest) rest = absorbed rest rest"
    by (intro absorbed_cong) auto
  with 2 show ?case by (auto split: pyval.splits)
qed

lemma absorbed_merge: "distinct_keys ov \<Longrightarrow> absorbed (deep_merge_loop out ov) ov"
proof (induction ov arbitrary: out rule: distinct_keys.induct)
  case 1
  then show ?case by simp
next
  case (2 k v rest)
  let ?new = "merged_value (map_of out k) v"
  let ?out1 = "AList.update k ?new out"
  have fresh: "k \<notin> fst ` set rest" and rest: "distinct_keys rest"
    using "2.prems" by auto
  have tail: "absorbed (deep_merge_loop ?out1 rest) rest"
    using "2.IH"(2) rest by blast
  have at_k: "map_of (deep_merge_loop ?out1 rest) k = Some ?new"
    using fresh by (simp add: map_of_loop_other update_conv')
  have head: "case v of
                PDict ov \<Rightarrow> (case Some ?new of Some (PDict b) \<Rightarrow> absorbed b ov | _ \<Rightarrow> False)
              | _ \<Rightarrow> Some ?new = Some v"
  proof (cases v)
    case (PDict d)
    then have d: "distinct_keys d" using "2.prems" by simp
    show ?thesis
      using PDict d "2.IH"(1)[OF PDict d] absorbed_self[OF d]
      by (auto simp: merged_value_def split: option.splits pyval.splits)
  qed (auto simp: merged_value_def split: option.splits pyval.splits)
  show ?case
    unfolding loop_step using head tail at_k
    by (auto simp del: deep_merge_loop.simps split: pyval.splits option.splits)
qed

lemma deep_merge_idem:
  "distinct_keys ov \<Longrightarrow> deep_merge (deep_merge d ov) ov = deep_merge d ov"
  unfolding deep_merge_def by (rule absorbed_loop[OF absorbed_merge])

lemma map_of_loop_key:
  "distinct_keys ov \<Longrightarrow> map_of ov k = Some v \<Longrightarrow>
   map_of (deep_merge_loop out ov) k = Some (merged_value (map_of out k) v)"
proof (induction ov arbitrary: out)
  case Nil
  then show ?case by simp
next
  case (Cons p ov)
  obtain k' v' where p: "p = (k', v')" by (cases p)
  have fresh: "k' \<notin> fst ` set ov" and rest: "distinct_keys ov"
    using Cons.prems(1) p by auto
  show ?case
  proof (cases "k' = k")
    case True
    then show ?thesis using Cons.prems p fresh
      by (simp add: loop_step map_of_loop_other update_conv' del: deep_merge_loop.simps)
  next
    case False
    then have "map_of ov k = Some v" using Cons.prems p by simp
    from Cons.IH[OF rest this] False show ?thesis
      using p by (simp add: loop_step update_conv' del: deep_merge_loop.simps)
  qed
qed

lemma walk_merge:
  "distinct_keys ov \<Longrightarrow> walk d ks = Some dsub \<Longrightarrow> walk ov ks = Some osub \<Longrightarrow>
   walk (deep_merge_loop d ov) ks = Some (deep_merge_loop dsub osub)"
proof (induction ks arbitrary: d ov)
  case Nil
  then show ?case by simp
next
  case (Cons a ks)
  from Cons.prems(2) obtain d1 where d1: "map_of d a = Some (PDict d1)" "walk d1 ks = Some dsub"
    by (auto split: option.splits pyval.splits)
  from Cons.prems(3) obtain o1 where o1: "map_of ov a = Some (PDict o1)" "walk o1 ks = Some osub"
    by (auto split: option.splits pyval.splits)
  have "distinct_keys o1" using Cons.prems(1) o1(1) by (rule distinct_keys_sub)
  from Cons.IH[OF this d1(2) o1(2)]
  show ?case
    using map_of_loop_key[OF Cons.prems(1) o1(1), of d] d1(1)
    by (simp add: merged_value_def)
qed

text \<open>
  C4. Applying the same override a second time changes nothing, and a key of the
  defaults that the override does not mention keeps its default value, at every depth:
  wherever the path \<open>ks\<close> leads to a mapping in the defaults and in the override, a key
  \<open>k\<close> of the defaults' mapping that the override's mapping lacks is in the merged
  mapping at \<open>ks\<close>, with the default value \<open>v\<close>. The override is a Python dictionary, so
  it holds no key twice.
\<close>

theorem deep_merge_idempotent_keeps_defaults:
  assumes "distinct_keys override"
  shows "deep_merge (deep_merge defaults override) override = deep_merge defaults override \<and>
         (\<forall>ks k dsub osub v.
            walk defaults ks = Some dsub \<longrightarrow> walk override ks = Some osub \<longrightarrow>
            map_of dsub k = Some v \<longrightarrow> map_of osub k = None \<longrightarrow>
            (\<exists>msub. walk (deep_merge defaults override) ks = Some msub \<and>
                    map_of msub k = Some v))"
proof (intro conjI allI impI)
  show "deep_merge (deep_merge defaults override) override = deep_merge defaults override"
    using assms by (rule deep_merge_idem)
next
  fix ks k dsub osub v
  assume w: "walk defaults ks = Some dsub" "walk override ks = Some osub"
    and v: "map_of dsub k = Some v" and absent: "map_of osub k = None"
  have "walk (deep_merge defaults override) ks = Some (deep_merge_loop dsub osub)"
    unfolding deep_merge_def using assms w by (rule walk_merge)
  moreover have "k \<notin> fst ` set osub" using absent by (simp add: map_of_eq_None_iff)
  then have "map_of (deep_merge_loop dsub osub) k = Some v"
    using v by (simp add: map_of_loop_other)
  ultimately show "\<exists>msub. walk (deep_merge defaults override) ks = Some msub \<and>
                          map_of msub k = Some v"
    by blast
qed

text \<open>
  The theorem at a two-level configuration: the override sets \<^verbatim>\<open>dataset.test_size\<close>
  only, and \<^verbatim>\<open>dataset.random_state\<close> keeps its default 42.
\<close>

theorem deep_merge_idempotent_keeps_defaults_witness:
  "distinct_keys [(''dataset'', PDict [(''test_size'', PFloat (Fin (3 / 10)))])] \<and>
   deep_merge
     (deep_merge
        [(''dataset'', PDict [(''test_size'', PFloat (Fin (1 / 5))), (''random_state'', PInt 42)]),
         (''model'', PDict [(''type'', PStr ''random_forest'')])]
        [(''dataset'', PDict [(''test_size'', PFloat (Fin (3 / 10)))])])
     [(''dataset'', PDict [(''test_size'', PFloat (Fin (3 / 10)))])] =
   [(''dataset'', PDict [(''test_size'', PFloat (Fin (3 / 10))), (''random_state'', PInt 42)]),
    (''model'', PDict [(''type'', PStr ''random_forest'')])] \<and>
   (\<exists>msub.
      walk
        (deep_merge
           [(''dataset'', PDict [(''test_size'', PFloat (Fin (1 / 5))), (''random_state'', PInt 42)]),
            (''model'', PDict [(''type'', PStr ''random_forest'')])]
           [(''dataset'', PDict [(''test_size'', PFloat (Fin (3 / 10)))])])
        [''dataset''] = Some msub \<and>
      map_of msub ''random_state'' = Some (PInt 42))"
proof -
  let ?d = "[(''dataset'', PDict [(''test_size'', PFloat (Fin (1 / 5))), (''random_state'', PInt 42)]),
             (''model'', PDict [(''type'', PStr ''random_forest'')])]"
  let ?o = "[(''dataset'', PDict [(''test_size'', PFloat (Fin (3 / 10)))])]"
  have h: "distinct_keys ?o" by simp
  have m: "deep_merge ?d ?o =
           [(''dataset'', PDict [(''test_size'', PFloat (Fin (3 / 10))), (''random_state'', PInt 42)]),
            (''model'', PDict [(''type'', PStr ''random_forest'')])]"
    by (simp add: deep_merge_def)
  from deep_merge_idempotent_keeps_defaults[OF h, of ?d]
  have idem: "deep_merge (deep_merge ?d ?o) ?o = deep_merge ?d ?o"
    and keep: "\<And>ks k dsub osub v.
            walk ?d ks = Some dsub \<Longrightarrow> walk ?o ks = Some osub \<Longrightarrow>
            map_of dsub k = Some v \<Longrightarrow> map_of osub k = None \<Longrightarrow>
            \<exists>msub. walk (deep_merge ?d ?o) ks = Some msub \<and> map_of msub k = Some v"
    by blast+
  have "\<exists>msub. walk (deep_merge ?d ?o) [''dataset''] = Some msub \<and>
               map_of msub ''random_state'' = Some (PInt 42)"
    by (rule keep[where dsub = "[(''test_size'', PFloat (Fin (1 / 5))), (''random_state'', PInt 42)]"
          and osub = "[(''test_size'', PFloat (Fin (3 / 10)))]"]) simp_all
  with h idem m show ?thesis by simp
qed

section \<open>Properties of \<^verbatim>\<open>maybe_promote\<close>\<close>




lemma previous_accuracy_ensure_dir [simp]:
  "previous_accuracy_of L p (ensure_dir d s) = previous_accuracy_of L p s"
  by (simp add: previous_accuracy_of_def read_json_def ensure_dir_def)

lemma paths_differ: "prod_model_path_of b \<noteq> prod_metrics_path_of b"
  by (simp add: prod_model_path_of_def prod_metrics_path_of_def joinpath_def)

lemma maybe_promote_result:
  assumes "base_dir_of config = Inr base"
      and "promote_threshold L config = Inr thr"
      and "previous_accuracy_of L (prod_metrics_path_of base) s = Inr prev"
      and "current_accuracy_of L metrics = Inr cur"
  shows "maybe_promote L now mp metrics config rid s =
     (let promote = (float_ge cur thr \<and> float_ge cur prev);
          promotion = [(''promoted'', PBool promote), (''threshold'', PFloat thr),
                       (''previous_accuracy'', PFloat prev), (''current_accuracy'', PFloat cur)];
          s1 = ensure_dir (joinpath base ''production'') s
      in if \<not> promote then (Inr promotion, s1)
         else (case copy2 mp (prod_model_path_of base) s1 of
                 Inl e \<Rightarrow> (Inl e, s1)
               | Inr s2 \<Rightarrow> (Inr promotion,
                    write_json (prod_metrics_path_of base)
                      (AList.update ''promoted_at'' (PStr now)
                         (AList.update ''run_id'' (PStr rid) metrics)) s2)))"
  using assms
  by (auto simp: maybe_promote_def Let_def prod_metrics_path_of_def prod_model_path_of_def
           split: sum.splits)

lemmas example_defs =
  example_lib_def example_config_def example_metrics_def example_fs_def
  base_dir_of_def promote_threshold_def previous_accuracy_of_def current_accuracy_of_def
  prod_metrics_path_of_def prod_model_path_of_def joinpath_def
  and_then_def getitem_def get_method_def py_float_def to_path_def read_json_def




lemma previous_accuracy_copy2:
  "copy2 src dst s = Inr s2 \<Longrightarrow> dst \<noteq> p \<Longrightarrow>
   previous_accuracy_of L p s2 = previous_accuracy_of L p s"
  by (auto simp: copy2_def previous_accuracy_of_def read_json_def split: option.splits if_splits)






text \<open>
  C3. When \<open>maybe_promote\<close> returns a record whose decision is false, no file was
  written or changed: the production model file and the production metrics record are
  as they were (the call has only made sure that the production directory exists). The
  record states the decision, the threshold read from the configuration, the previous
  production accuracy and the candidate's accuracy.
\<close>

theorem maybe_promote_not_promoted_frame:
  assumes "maybe_promote L now model_path metrics config run_id s = (Inr r, s')"
      and "map_of r ''promoted'' = Some (PBool False)"
  shows "files s' = files s \<and>
         (\<exists>base thr prev cur.
            base_dir_of config = Inr base \<and>
            promote_threshold L config = Inr thr \<and>
            previous_accuracy_of L (prod_metrics_path_of base) s = Inr prev \<and>
            current_accuracy_of L metrics = Inr cur \<and>
            r = [(''promoted'', PBool False), (''threshold'', PFloat thr),
                 (''previous_accuracy'', PFloat prev), (''current_accuracy'', PFloat cur)])"
proof -
  from assms(1) obtain base where base: "base_dir_of config = Inr base"
    by (auto simp: maybe_promote_def split: sum.splits)
  from assms(1) base obtain thr where thr: "promote_threshold L config = Inr thr"
    by (auto simp: maybe_promote_def Let_def split: sum.splits)
  from assms(1) base thr obtain prev
    where prev: "previous_accuracy_of L (prod_metrics_path_of base) s = Inr prev"
    by (auto simp: maybe_promote_def Let_def prod_metrics_path_of_def split: sum.splits)
  from assms(1) base thr prev obtain cur where cur: "current_accuracy_of L metrics = Inr cur"
    by (auto simp: maybe_promote_def Let_def prod_metrics_path_of_def split: sum.splits)
  note res = maybe_promote_result[OF base thr prev cur, of now model_path run_id]
  from assms res have np: "\<not> (float_ge cur thr \<and> float_ge cur prev)"
    by (auto simp: Let_def split: if_splits sum.splits)
  with assms(1) res have "s' = ensure_dir (joinpath base ''production'') s"
    and "r = [(''promoted'', PBool False), (''threshold'', PFloat thr),
              (''previous_accuracy'', PFloat prev), (''current_accuracy'', PFloat cur)]"
    by (auto simp: Let_def)
  then show ?thesis using base thr prev cur by (auto simp: ensure_dir_def)
qed

text \<open>The second run of the scenario on an empty production slot: 0.80 is below the threshold.\<close>

theorem maybe_promote_not_promoted_frame_witness:
  "maybe_promote example_lib ''2026-01-12T03:00:00+00:00'' ''ml/artifacts/runs/r2/model.joblib''
     (example_metrics (80 / 100)) example_config ''r2'' example_fs =
     (Inr [(''promoted'', PBool False), (''threshold'', PFloat (Fin (85 / 100))),
           (''previous_accuracy'', PFloat (Fin (- 1))), (''current_accuracy'', PFloat (Fin (80 / 100)))],
      ensure_dir ''ml/artifacts/production'' example_fs) \<and>
   files (ensure_dir ''ml/artifacts/production'' example_fs) = files example_fs"
proof -
  have r: "maybe_promote example_lib ''2026-01-12T03:00:00+00:00'' ''ml/artifacts/runs/r2/model.joblib''
     (example_metrics (80 / 100)) example_config ''r2'' example_fs =
     (Inr [(''promoted'', PBool False), (''threshold'', PFloat (Fin (85 / 100))),
           (''previous_accuracy'', PFloat (Fin (- 1))), (''current_accuracy'', PFloat (Fin (80 / 100)))],
      ensure_dir ''ml/artifacts/production'' example_fs)"
    by (simp add: maybe_promote_def example_defs Let_def ensure_dir_def)
  have "map_of [(''promoted'', PBool False), (''threshold'', PFloat (Fin (85 / 100))),
           (''previous_accuracy'', PFloat (Fin (- 1))), (''current_accuracy'', PFloat (Fin (80 / 100)))]
          ''promoted'' = Some (PBool False)"
    by simp
  from maybe_promote_not_promoted_frame[OF r this] r show ?thesis by simp
qed

section \<open>Properties of \<^verbatim>\<open>trigger_train\<close>\<close>

lemma split_once_bearer: "prefix ''Bearer '' a \<Longrightarrow> split_once a = [''Bearer'', drop 7 a]"
  by (auto simp: prefix_def split_once_def)

lemma authorize_cases:
  "token_required \<noteq> [] \<Longrightarrow>
   authorize L authorization token_required =
     (if authorization = None \<or> authorization = Some []
        then Inl (HTTPException 401 ''Missing Authorization header'')
      else if \<not> prefix ''Bearer '' (the authorization)
        then Inl (HTTPException 401 ''Authorization must use Bearer token'')
      else if strip L (drop 7 (the authorization)) \<noteq> token_required
        then Inl (HTTPException 403 ''Invalid bearer token'')
      else Inr ())"
  by (auto simp: authorize_def split_once_bearer split: option.splits)

text \<open>
  C9, as the code has it. With a bearer token configured, a request to the train-trigger
  endpoint is answered as follows, and only the last case calls the pipeline:
  \<^item> no \<^verbatim>\<open>Authorization\<close> header, or an empty one: 401, unauthorized;
  \<^item> a header that does not start with \<^verbatim>\<open>Bearer \<close>: 401, unauthorized;
  \<^item> \<^verbatim>\<open>Bearer <token>\<close> whose token, stripped, is not the configured one: 403, forbidden;
  \<^item> \<^verbatim>\<open>Bearer <token>\<close> with the configured token: the pipeline runs with reason
    \<^verbatim>\<open>"api"\<close>, and the response is its run identifier and metrics.
  A rejected request leaves the file system as it was.
\<close>

theorem trigger_train_authorization:
  assumes "load_config config_path s = Inr cfg"
      and "configured_token L cfg = Inr token_required"
      and "token_required \<noteq> []"
  shows "trigger_train L run_pipeline config_path authorization s =
     (if authorization = None \<or> authorization = Some []
        then (Inl (HTTPException 401 ''Missing Authorization header''), s)
      else if \<not> prefix ''Bearer '' (the authorization)
        then (Inl (HTTPException 401 ''Authorization must use Bearer token''), s)
      else if strip L (drop 7 (the authorization)) \<noteq> token_required
        then (Inl (HTTPException 403 ''Invalid bearer token''), s)
      else (case run_pipeline cfg ''api'' s of
              (Inl e, s') \<Rightarrow> (Inl e, s')
            | (Inr summary, s') \<Rightarrow>
                (case (map_of summary ''run_id'', map_of summary ''metrics'') of
                   (Some run_id, Some metrics) \<Rightarrow>
                     (Inr [(''ok'', PBool True), (''run_id'', run_id), (''metrics'', metrics)], s')
                 | (None, m) \<Rightarrow> (Inl (KeyError ''run_id''), s')
                 | (Some run_id, None) \<Rightarrow> (Inl (KeyError ''metrics''), s'))))"
  using assms
  by (auto simp: trigger_train_def authorize_cases train_response_def and_then_def getitem_def
           split: prod.splits sum.splits option.splits)

text \<open>
  The claim says that a malformed credential is rejected as forbidden. The code answers
  a credential of another scheme with 401, not 403.
\<close>

theorem trigger_train_malformed_counterexample:
  "configured_token example_lib (deep_merge DEFAULT_CONFIG api_override) = Inr ''s3cret'' \<and>
   \<not> prefix ''Bearer '' ''Basic czNjcmV0'' \<and>
   trigger_train example_lib example_runner ''ml/config.yaml'' (Some ''Basic czNjcmV0'') api_fs =
     (Inl (HTTPException 401 ''Authorization must use Bearer token''), api_fs) \<and>
   fst (trigger_train example_lib example_runner ''ml/config.yaml'' (Some ''Basic czNjcmV0'') api_fs) \<noteq>
     Inl (HTTPException 403 ''Invalid bearer token'')"
  by (simp add: trigger_train_def load_config_def api_fs_def api_override_def py_bool_def
        deep_merge_def DEFAULT_CONFIG_def configured_token_def and_then_def get_method_def
        py_str_def example_lib_def strip_ascii_def authorize_def)

text \<open>The configured token accepted, a wrong token and a missing header rejected.\<close>

theorem trigger_train_authorization_witness:
  "load_config ''ml/config.yaml'' api_fs = Inr (deep_merge DEFAULT_CONFIG api_override) \<and>
   configured_token example_lib (deep_merge DEFAULT_CONFIG api_override) = Inr ''s3cret'' \<and>
   ''s3cret'' \<noteq> [] \<and>
   trigger_train example_lib example_runner ''ml/config.yaml'' (Some ''Bearer s3cret'') api_fs =
     (Inr [(''ok'', PBool True), (''run_id'', PStr ''20260105-030000-0a1b2c3d''),
           (''metrics'', PDict (example_metrics (90 / 100)))], api_fs) \<and>
   trigger_train example_lib example_runner ''ml/config.yaml'' (Some ''Bearer guess'') api_fs =
     (Inl (HTTPException 403 ''Invalid bearer token''), api_fs) \<and>
   trigger_train example_lib example_runner ''ml/config.yaml'' None api_fs =
     (Inl (HTTPException 401 ''Missing Authorization header''), api_fs)"
proof -
  have c: "load_config ''ml/config.yaml'' api_fs = Inr (deep_merge DEFAULT_CONFIG api_override)"
    by (simp add: load_config_def api_fs_def api_override_def py_bool_def)
  have t: "configured_token example_lib (deep_merge DEFAULT_CONFIG api_override) = Inr ''s3cret''"
    by (simp add: api_override_def deep_merge_def DEFAULT_CONFIG_def configured_token_def
          and_then_def get_method_def py_str_def example_lib_def strip_ascii_def)
  have n: "''s3cret'' \<noteq> []" by simp
  note th = trigger_train_authorization[OF c t n, of example_runner]
  have "trigger_train example_lib example_runner ''ml/config.yaml'' (Some ''Bearer s3cret'') api_fs =
     (Inr [(''ok'', PBool True), (''run_id'', PStr ''20260105-030000-0a1b2c3d''),
           (''metrics'', PDict (example_metrics (90 / 100)))], api_fs)"
    using th[of "Some ''Bearer s3cret''"]
    by (simp add: example_lib_def strip_ascii_def example_runner_def)
  moreover have "trigger_train example_lib example_runner ''ml/config.yaml'' (Some ''Bearer guess'') api_fs =
     (Inl (HTTPException 403 ''Invalid bearer token''), api_fs)"
    using th[of "Some ''Bearer guess''"]
    by (simp add: example_lib_def strip_ascii_def)
  moreover have "trigger_train example_lib example_runner ''ml/config.yaml'' None api_fs =
     (Inl (HTTPException 401 ''Missing Authorization header''), api_fs)"
    using th[of None] by simp
  ultimately show ?thesis using c t n by simp
qed

section \<open>Properties of \<^verbatim>\<open>save_preprocess_snapshot\<close>\<close>

lemma filter_overwrite:
  "filter (\<lambda>(n, c). n \<noteq> k) (map (\<lambda>(n, c). if n = k then (n, v) else (n, c)) cols) =
   filter (\<lambda>(n, c). n \<noteq> k) cols"
  by (induction cols) auto

lemma map_of_overwrite:
  "k \<in> fst ` set cols \<Longrightarrow>
   map_of (map (\<lambda>(n, c). if n = k then (n, v) else (n, c)) cols) k = Some v"
  by (induction cols) auto

lemma names_overwrite:
  "map fst (map (\<lambda>(n, c). if n = k then (n, v) else (n, c)) cols) = map fst cols"
  by (induction cols) auto

lemma set_column_snapshot:
  assumes "length (s_values y) = length (df_index X)"
  shows "\<exists>df. set_column X ''target'' (s_dtype y) (s_values y) = Inr df \<and>
              df_index df = df_index X \<and> snapshot_of X y df"
proof -
  have same: "\<not> (df_index X = [] \<and> s_values y \<noteq> [])" using assms by auto
  let ?v = "(s_dtype y, s_values y)"
  let ?cols = "if ''target'' \<in> set (column_names X)
               then map (\<lambda>(n, c). if n = ''target'' then (n, ?v) else (n, c)) (df_columns X)
               else df_columns X @ [(''target'', ?v)]"
  have eq: "set_column X ''target'' (s_dtype y) (s_values y) = Inr (X\<lparr>df_columns := ?cols\<rparr>)"
    unfolding set_column_def Let_def if_not_P[OF same] using assms by simp
  have names: "map fst ?cols =
      (if ''target'' \<in> set (column_names X) then column_names X else column_names X @ [''target''])"
    using names_overwrite[of "''target''" ?v "df_columns X"]
    by (simp add: column_names_def del: map_map)
  have labels: "list_all (\<lambda>(n, c). n \<noteq> ''target'' \<or> c = ?v) ?cols"
    by (auto simp: list_all_iff column_names_def split: if_splits) force+
  have others: "filter (\<lambda>(n, c). n \<noteq> ''target'') ?cols =
                filter (\<lambda>(n, c). n \<noteq> ''target'') (df_columns X)"
    by (simp add: filter_overwrite)
  have look: "map_of ?cols ''target'' = Some ?v"
  proof (cases "''target'' \<in> set (column_names X)")
    case True
    then have "''target'' \<in> fst ` set (df_columns X)" by (simp add: column_names_def)
    from map_of_overwrite[OF this] True show ?thesis by simp
  next
    case False
    then have "map_of (df_columns X) ''target'' = None"
      by (simp add: column_names_def map_of_eq_None_iff)
    with False show ?thesis by (simp add: map_add_def)
  qed
  show ?thesis
    unfolding eq snapshot_of_def using names labels others look
    by (simp add: column_names_def)
qed

text \<open>
  C10. The function takes no configuration, and the name of the label column it writes
  is the literal \<^verbatim>\<open>"target"\<close>. For feature tables and labels of equal row counts, the
  call returns, and \<^verbatim>\<open>train.csv\<close> and \<^verbatim>\<open>test.csv\<close> hold snapshots as \<open>snapshot_of\<close>
  describes: a last column \<^verbatim>\<open>target\<close> with the label values is appended when the
  features have no column of that name; when they have one, no column is appended and
  that feature column holds the label values instead of its own. Every other column is
  written as it is.
\<close>

theorem snapshot_label_column_named_target:
  assumes "length (s_values y_train) = length (df_index X_train)"
      and "length (s_values y_test) = length (df_index X_test)"
  shows "\<exists>report s' train_df test_df.
           save_preprocess_snapshot X_train X_test y_train y_test run_dir s = (Inr report, s') \<and>
           files s' (joinpath (joinpath run_dir ''preprocessed'') ''train.csv'') = Some (Csv train_df) \<and>
           files s' (joinpath (joinpath run_dir ''preprocessed'') ''test.csv'') = Some (Csv test_df) \<and>
           snapshot_of X_train y_train train_df \<and>
           snapshot_of X_test y_test test_df \<and>
           (''target'' \<in> set (column_names X_train) \<longrightarrow>
              column_names train_df = column_names X_train \<and>
              map_of (df_columns train_df) ''target'' = Some (s_dtype y_train, s_values y_train)) \<and>
           (''target'' \<in> set (column_names X_test) \<longrightarrow>
              column_names test_df = column_names X_test \<and>
              map_of (df_columns test_df) ''target'' = Some (s_dtype y_test, s_values y_test))"
proof -
  from set_column_snapshot[OF assms(1)] obtain tr
    where tr: "set_column X_train ''target'' (s_dtype y_train) (s_values y_train) = Inr tr"
      and trs: "snapshot_of X_train y_train tr" by blast
  from set_column_snapshot[OF assms(2)] obtain te
    where te: "set_column X_test ''target'' (s_dtype y_test) (s_values y_test) = Inr te"
      and tes: "snapshot_of X_test y_test te" by blast
  let ?tr = "tr\<lparr>df_index := [0..<length (df_index tr)]\<rparr>"
  let ?te = "te\<lparr>df_index := [0..<length (df_index te)]\<rparr>"
  have s1: "snapshot_of X_train y_train ?tr" using trs by (simp add: snapshot_of_def column_names_def)
  have s2: "snapshot_of X_test y_test ?te" using tes by (simp add: snapshot_of_def column_names_def)
  have "\<exists>report s'. save_preprocess_snapshot X_train X_test y_train y_test run_dir s = (Inr report, s') \<and>
           files s' (joinpath (joinpath run_dir ''preprocessed'') ''train.csv'') = Some (Csv ?tr) \<and>
           files s' (joinpath (joinpath run_dir ''preprocessed'') ''test.csv'') = Some (Csv ?te)"
    using tr te
    by (simp add: save_preprocess_snapshot_def Let_def to_csv_def ensure_dir_def joinpath_def)
  moreover have "''target'' \<in> set (column_names X_train) \<longrightarrow>
              column_names ?tr = column_names X_train \<and>
              map_of (df_columns ?tr) ''target'' = Some (s_dtype y_train, s_values y_train)"
    using s1 by (simp add: snapshot_of_def)
  moreover have "''target'' \<in> set (column_names X_test) \<longrightarrow>
              column_names ?te = column_names X_test \<and>
              map_of (df_columns ?te) ''target'' = Some (s_dtype y_test, s_values y_test)"
    using s2 by (simp add: snapshot_of_def)
  ultimately show ?thesis using s1 s2 by blast
qed

text \<open>
  The label column is \<^verbatim>\<open>label\<close> and the features have a column \<^verbatim>\<open>target\<close>: the
  persisted tables hold the labels under \<^verbatim>\<open>target\<close>, and the feature's values
  (\<^verbatim>\<open>gold\<close>, \<^verbatim>\<open>basic\<close>) are gone.
\<close>

theorem snapshot_label_column_named_target_witness:
  "length (s_values example_y_train) = length (df_index example_X_train) \<and>
   length (s_values example_y_test) = length (df_index example_X_test) \<and>
   ''target'' \<in> set (column_names example_X_train) \<and>
   files (snd (save_preprocess_snapshot example_X_train example_X_test example_y_train
                 example_y_test ''ml/artifacts/runs/r1'' example_fs))
     ''ml/artifacts/runs/r1/preprocessed/train.csv'' =
   Some (Csv \<lparr>df_index = [0, 1, 2],
              df_columns = [(''age'', Number, [PInt 41, PInt 23, PInt 35]),
                            (''target'', Number, [PInt 1, PInt 0, PInt 1]),
                            (''active'', Boolean, [PBool True, PBool False, PBool True])]\<rparr>) \<and>
   files (snd (save_preprocess_snapshot example_X_train example_X_test example_y_train
                 example_y_test ''ml/artifacts/runs/r1'' example_fs))
     ''ml/artifacts/runs/r1/preprocessed/test.csv'' =
   Some (Csv \<lparr>df_index = [0],
              df_columns = [(''age'', Number, [PInt 58]),
                            (''target'', Number, [PInt 0]),
                            (''active'', Boolean, [PBool False])]\<rparr>)"
proof -
  have l1: "length (s_values example_y_train) = length (df_index example_X_train)"
    by (simp add: example_y_train_def example_X_train_def)
  have l2: "length (s_values example_y_test) = length (df_index example_X_test)"
    by (simp add: example_y_test_def example_X_test_def)
  have t: "''target'' \<in> set (column_names example_X_train)"
    by (simp add: column_names_def example_X_train_def)
  from snapshot_label_column_named_target[OF l1 l2, of "''ml/artifacts/runs/r1''" example_fs]
  obtain report s' train_df test_df where
    r: "save_preprocess_snapshot example_X_train example_X_test example_y_train
          example_y_test ''ml/artifacts/runs/r1'' example_fs = (Inr report, s')" by blast
  have f1: "files (snd (save_preprocess_snapshot example_X_train example_X_test example_y_train
                 example_y_test ''ml/artifacts/runs/r1'' example_fs))
     ''ml/artifacts/runs/r1/preprocessed/train.csv'' =
   Some (Csv \<lparr>df_index = [0, 1, 2],
              df_columns = [(''age'', Number, [PInt 41, PInt 23, PInt 35]),
                            (''target'', Number, [PInt 1, PInt 0, PInt 1]),
                            (''active'', Boolean, [PBool True, PBool False, PBool True])]\<rparr>)"
    by (simp add: save_preprocess_snapshot_def set_column_def column_names_def Let_def to_csv_def
          ensure_dir_def joinpath_def example_X_train_def example_X_test_def example_y_train_def
          example_y_test_def upt_rec)
  have f2: "files (snd (save_preprocess_snapshot example_X_train example_X_test example_y_train
                 example_y_test ''ml/artifacts/runs/r1'' example_fs))
     ''ml/artifacts/runs/r1/preprocessed/test.csv'' =
   Some (Csv \<lparr>df_index = [0],
              df_columns = [(''age'', Number, [PInt 58]),
                            (''target'', Number, [PInt 0]),
                            (''active'', Boolean, [PBool False])]\<rparr>)"
    by (simp add: save_preprocess_snapshot_def set_column_def column_names_def Let_def to_csv_def
          ensure_dir_def joinpath_def example_X_train_def example_X_test_def example_y_train_def
          example_y_test_def upt_rec)
  from l1 l2 t r f1 f2 show ?thesis by simp
qed

section \<open>Properties of \<^verbatim>\<open>build_preprocessor\<close>\<close>

lemma subseq_numeric_cols: "subseq (numeric_cols X) (column_names X)"
  unfolding numeric_cols_def column_names_def by (rule subseq_map) simp

lemma subseq_categorical_cols: "subseq (categorical_cols X) (column_names X)"
  unfolding categorical_cols_def by simp

lemma set_numeric_cols: "set (numeric_cols X) \<subseteq> set (column_names X)"
  by (auto simp: numeric_cols_def column_names_def)

lemma cols_empty_iff:
  "numeric_cols X = [] \<and> categorical_cols X = [] \<longleftrightarrow> column_names X = []"
  using set_numeric_cols[of X] by (auto simp: categorical_cols_def)

lemma filter_names_distinct:
  assumes "distinct (map fst cols)"
  shows "filter (\<lambda>c. c \<notin> set (map fst (filter P cols))) (map fst cols) =
         map fst (filter (\<lambda>x. \<not> P x) cols)"
proof -
  have inj: "inj_on fst (set cols)" using assms by (simp add: distinct_map)
  have "filter (\<lambda>c. c \<notin> set (map fst (filter P cols))) (map fst cols) =
        map fst (filter (\<lambda>x. fst x \<notin> set (map fst (filter P cols))) cols)"
    by (simp add: filter_map comp_def)
  also have "filter (\<lambda>x. fst x \<notin> set (map fst (filter P cols))) cols =
             filter (\<lambda>x. \<not> P x) cols"
  proof (rule filter_cong[OF refl])
    fix x assume x: "x \<in> set cols"
    have "fst x \<in> set (map fst (filter P cols)) \<longleftrightarrow> P x"
    proof
      assume "fst x \<in> set (map fst (filter P cols))"
      then obtain x' where x': "x' \<in> set cols" "P x'" "fst x' = fst x" by auto
      with inj x have "x' = x" by (auto dest: inj_onD)
      with x' show "P x" by simp
    next
      assume "P x"
      with x show "fst x \<in> set (map fst (filter P cols))" by force
    qed
    then show "(fst x \<notin> set (map fst (filter P cols))) = (\<not> P x)" by simp
  qed
  finally show ?thesis .
qed

lemma categorical_cols_distinct:
  assumes "distinct (column_names X)"
  shows "categorical_cols X =
         map fst (filter (\<lambda>(n, dt, cells). dt \<noteq> Number \<and> dt \<noteq> Boolean) (df_columns X))"
proof -
  have "filter (\<lambda>x. \<not> (case x of (n, dt, cells) \<Rightarrow> dt = Number \<or> dt = Boolean)) (df_columns X) =
        filter (\<lambda>(n, dt, cells). dt \<noteq> Number \<and> dt \<noteq> Boolean) (df_columns X)"
    by (rule filter_cong) auto
  moreover have "categorical_cols X =
        map fst (filter (\<lambda>x. \<not> (case x of (n, dt, cells) \<Rightarrow> dt = Number \<or> dt = Boolean))
                   (df_columns X))"
    unfolding categorical_cols_def numeric_cols_def column_names_def
    using assms by (intro filter_names_distinct) (simp add: column_names_def)
  ultimately show ?thesis by simp
qed

lemma build_preprocessor_result:
  assumes "getitem (PDict config) ''preprocess'' = Inr (PDict pc)"
  shows "\<exists>pre. build_preprocessor L X config = Inr pre \<and>
           routed_columns pre =
             filter (\<lambda>(name, cols). cols \<noteq> [])
               [(''numeric'', numeric_cols X), (''categorical'', categorical_cols X)] \<and>
           (pre = Passthrough \<longleftrightarrow> numeric_cols X = [] \<and> categorical_cols X = []) \<and>
           (pre \<noteq> Passthrough \<longrightarrow> remainder_of pre = Some Drop)"
  using assms
  by (simp add: build_preprocessor_def and_then_def get_method_def Let_def)

text \<open>
  C6. For every feature table, and every configuration whose \<^verbatim>\<open>preprocess\<close> section is
  a mapping, \<open>build_preprocessor\<close> returns a preprocessor \<open>pre\<close> such that
  \<^item> the numeric-like group is the columns of numeric or boolean dtype, the categorical
    group the columns whose name is not in the numeric-like group (with distinct column
    names: the columns of any other dtype);
  \<^item> each group keeps the order of the table's columns, the two groups are disjoint and
    together hold every column name;
  \<^item> \<open>pre\<close> routes the non-empty groups only, \<^verbatim>\<open>numeric\<close> before \<^verbatim>\<open>categorical\<close>;
  \<^item> \<open>pre\<close> is the pass-through exactly when both groups are empty, which is when the
    table has no column;
  \<^item> otherwise its remainder is \<^verbatim>\<open>drop\<close>.
\<close>

theorem build_preprocessor_routes_columns:
  assumes "getitem (PDict config) ''preprocess'' = Inr (PDict pc)"
  shows "\<exists>pre. build_preprocessor L X config = Inr pre \<and>
           numeric_cols X =
             map fst (filter (\<lambda>(n, dt, cells). dt = Number \<or> dt = Boolean) (df_columns X)) \<and>
           categorical_cols X = filter (\<lambda>c. c \<notin> set (numeric_cols X)) (column_names X) \<and>
           (distinct (column_names X) \<longrightarrow>
              categorical_cols X =
                map fst (filter (\<lambda>(n, dt, cells). dt \<noteq> Number \<and> dt \<noteq> Boolean) (df_columns X))) \<and>
           subseq (numeric_cols X) (column_names X) \<and>
           subseq (categorical_cols X) (column_names X) \<and>
           set (numeric_cols X) \<inter> set (categorical_cols X) = {} \<and>
           set (numeric_cols X) \<union> set (categorical_cols X) = set (column_names X) \<and>
           routed_columns pre =
             filter (\<lambda>(name, cols). cols \<noteq> [])
               [(''numeric'', numeric_cols X), (''categorical'', categorical_cols X)] \<and>
           (pre = Passthrough \<longleftrightarrow> numeric_cols X = [] \<and> categorical_cols X = []) \<and>
           (pre = Passthrough \<longleftrightarrow> column_names X = []) \<and>
           (pre \<noteq> Passthrough \<longrightarrow> remainder_of pre = Some Drop)"
proof -
  from build_preprocessor_result[OF assms, of L X] obtain pre where
    pre: "build_preprocessor L X config = Inr pre"
    and routed: "routed_columns pre =
             filter (\<lambda>(name, cols). cols \<noteq> [])
               [(''numeric'', numeric_cols X), (''categorical'', categorical_cols X)]"
    and pass: "pre = Passthrough \<longleftrightarrow> numeric_cols X = [] \<and> categorical_cols X = []"
    and rem: "pre \<noteq> Passthrough \<longrightarrow> remainder_of pre = Some Drop"
    by blast
  have disj: "set (numeric_cols X) \<inter> set (categorical_cols X) = {}"
    by (auto simp: categorical_cols_def)
  have un: "set (numeric_cols X) \<union> set (categorical_cols X) = set (column_names X)"
    using set_numeric_cols[of X] by (auto simp: categorical_cols_def)
  have pass': "pre = Passthrough \<longleftrightarrow> column_names X = []"
    using pass cols_empty_iff by simp
  show ?thesis
    using pre routed pass pass' rem disj un subseq_numeric_cols subseq_categorical_cols
      categorical_cols_distinct
    by (intro exI[of _ pre] conjI impI) (simp_all add: numeric_cols_def categorical_cols_def)
qed

text \<open>
  On the table of the snapshot example: \<^verbatim>\<open>age\<close> and \<^verbatim>\<open>active\<close> are numeric-like,
  \<^verbatim>\<open>target\<close> is categorical, scaling is switched off. On a table of text only the
  numeric transform is left out.
\<close>

theorem build_preprocessor_routes_columns_witness:
  "getitem (PDict example_preprocess_config) ''preprocess'' =
     Inr (PDict [(''scale_numeric'', PBool False)]) \<and>
   build_preprocessor example_lib example_X_train example_preprocess_config =
     Inr (ColumnTransformer
            [(''numeric'', [(''imputer'', SimpleImputer ''median'')], [''age'', ''active'']),
             (''categorical'',
              [(''imputer'', SimpleImputer ''most_frequent''),
               (''encoder'', OneHotEncoder ''ignore'' False)],
              [''target''])]
            Drop) \<and>
   build_preprocessor example_lib example_text_table example_preprocess_config =
     Inr (ColumnTransformer
            [(''categorical'',
              [(''imputer'', SimpleImputer ''most_frequent''),
               (''encoder'', OneHotEncoder ''ignore'' False)],
              [''city''])]
            Drop) \<and>
   build_preprocessor example_lib \<lparr>df_index = [0, 1], df_columns = []\<rparr> example_preprocess_config =
     Inr Passthrough"
proof -
  have h: "getitem (PDict example_preprocess_config) ''preprocess'' =
             Inr (PDict [(''scale_numeric'', PBool False)])"
    by (simp add: getitem_def example_preprocess_config_def)
  from build_preprocessor_routes_columns[OF h, of example_lib "\<lparr>df_index = [0, 1], df_columns = []\<rparr>"]
  have p: "build_preprocessor example_lib \<lparr>df_index = [0, 1], df_columns = []\<rparr>
             example_preprocess_config = Inr Passthrough"
    by (auto simp: column_names_def)
  have a: "build_preprocessor example_lib example_X_train example_preprocess_config =
     Inr (ColumnTransformer
            [(''numeric'', [(''imputer'', SimpleImputer ''median'')], [''age'', ''active'']),
             (''categorical'',
              [(''imputer'', SimpleImputer ''most_frequent''),
               (''encoder'', OneHotEncoder ''ignore'' False)],
              [''target''])]
            Drop)"
    by (simp add: build_preprocessor_def example_preprocess_config_def example_X_train_def
          and_then_def getitem_def get_method_def Let_def numeric_cols_def categorical_cols_def
          column_names_def py_str_def py_bool_def)
  have b: "build_preprocessor example_lib example_text_table example_preprocess_config =
     Inr (ColumnTransformer
            [(''categorical'',
              [(''imputer'', SimpleImputer ''most_frequent''),
               (''encoder'', OneHotEncoder ''ignore'' False)],
              [''city''])]
            Drop)"
    by (simp add: build_preprocessor_def example_preprocess_config_def example_text_table_def
          and_then_def getitem_def get_method_def Let_def numeric_cols_def categorical_cols_def
          column_names_def py_str_def py_bool_def)
  from h p a b show ?thesis by simp
qed

section \<open>Properties of \<^verbatim>\<open>train_model\<close>\<close>

lemma get_method_dict: "get_method (PDict d) k dflt = Inr (dict_get d k dflt)"
  by (simp add: get_method_def dict_get_def)










section \<open>Properties of \<^verbatim>\<open>load_dataset\<close>\<close>

lemma and_then_Inr: "and_then (Inr x) f = f x"
  by (simp add: and_then_def)

lemma load_dataset_unfold:
  assumes "getitem (PDict config) ''dataset'' = Inr (PDict dataset_cfg)"
      and "py_iter (dict_get dataset_cfg ''drop_columns'' (PList [])) = Inr xs"
      and "strip L (py_str L (dict_get dataset_cfg ''input_csv'' (PStr ''''))) = input_csv"
      and "input_csv \<noteq> []"
      and "strip L (py_str L (dict_get dataset_cfg ''target_column'' (PStr ''target''))) = target_column"
  shows "load_dataset L K config s =
     (case files s input_csv of
        None \<Rightarrow> Inl (FileNotFoundError (''Dataset CSV not found: '' @ input_csv))
      | Some (Csv df) \<Rightarrow>
          (case map_of (df_columns df) target_column of
             None \<Rightarrow> Inl (ValueError (''Target column '' @ [CHR 0x27] @ target_column @ [CHR 0x27] @
                                     '' not found in '' @ input_csv))
           | Some (dt, cells) \<Rightarrow>
               Inr (df\<lparr>df_columns :=
                        filter (\<lambda>(n, c). n \<noteq> target_column \<and> n \<notin> set (map (py_str L) xs))
                          (df_columns df)\<rparr>,
                    \<lparr>s_index = df_index df, s_dtype = dt, s_values = cells\<rparr>))
      | Some other \<Rightarrow> Inl (LibraryError ''read_csv''))"
proof -
  let ?missing = "Inl (ValueError (''Target column '' @ [CHR 0x27] @ target_column @ [CHR 0x27] @
                                   '' not found in '' @ input_csv)) :: error + dataframe \<times> series"
  let ?drops = "map (py_str L) xs"
  define final where "final df =
     (if ?drops \<noteq> []
      then drop_columns_of (drop_columns_of df [target_column]) ?drops
      else drop_columns_of df [target_column])" for df
  have step: "load_dataset L K config s =
     (if files s input_csv = None
      then Inl (FileNotFoundError (''Dataset CSV not found: '' @ input_csv))
      else and_then (read_csv input_csv s) (\<lambda>df.
             if target_column \<notin> set (column_names df) then ?missing
             else and_then (get_column df target_column) (\<lambda>y. Inr (final df, y))))"
    unfolding load_dataset_def final_def using assms
    by (simp add: get_method_dict and_then_Inr Let_def cong: if_cong)
  have X: "final df =
           df\<lparr>df_columns := filter (\<lambda>(n, c). n \<noteq> target_column \<and> n \<notin> set ?drops)
                                 (df_columns df)\<rparr>" for df
    unfolding final_def
    by (cases "?drops = []")
       (auto simp: drop_columns_of_def case_prod_beta
             intro!: arg_cong[where f = "\<lambda>c. df\<lparr>df_columns := c\<rparr>"] filter_cong)
  show ?thesis
  proof (cases "files s input_csv")
    case None
    then show ?thesis by (simp add: step)
  next
    case (Some c)
    show ?thesis
    proof (cases c)
      case (Csv df)
      have rd: "read_csv input_csv s = Inr df" using Some Csv by (simp add: read_csv_def)
      show ?thesis
      proof (cases "map_of (df_columns df) target_column")
        case None
        then have "target_column \<notin> set (column_names df)"
          by (simp add: column_names_def map_of_eq_None_iff)
        with None Some Csv rd show ?thesis by (simp add: step and_then_Inr)
      next
        case hit: (Some col)
        obtain dt cells where col: "col = (dt, cells)" by (cases col)
        from hit have "target_column \<in> set (column_names df)"
          by (auto simp: column_names_def dest: map_of_SomeD intro: rev_image_eqI)
        moreover have "get_column df target_column =
                       Inr \<lparr>s_index = df_index df, s_dtype = dt, s_values = cells\<rparr>"
          using hit col by (simp add: get_column_def)
        ultimately show ?thesis
          using hit col Some Csv rd by (simp add: step and_then_Inr X)
      qed
    qed (use Some in \<open>simp_all add: step read_csv_def and_then_def\<close>)
  qed
qed

text \<open>
  C8. Let the \<^verbatim>\<open>dataset\<close> section be a mapping whose \<^verbatim>\<open>drop_columns\<close> can be iterated,
  and let the configured input path, stripped, be the non-empty \<open>input_csv\<close>. Then
  \<open>load_dataset\<close>
  \<^item> raises \<^verbatim>\<open>FileNotFoundError\<close> (the \<^verbatim>\<open>DatasetNotFound\<close> condition) exactly when no file
    is at that path;
  \<^item> raises \<^verbatim>\<open>ValueError\<close> (the \<^verbatim>\<open>TargetColumnMissing\<close> condition) exactly when the file
    is a table without the configured target column;
  \<^item> and for a table with that column returns the table without the target column and
    without the configured drop-columns, its other columns and its rows as they are,
    paired with the target column.
  A file that does not parse as a table fails inside \<^verbatim>\<open>read_csv\<close>.
\<close>

theorem load_dataset_errors_and_result:
  assumes "getitem (PDict config) ''dataset'' = Inr (PDict dataset_cfg)"
      and "py_iter (dict_get dataset_cfg ''drop_columns'' (PList [])) = Inr xs"
      and "strip L (py_str L (dict_get dataset_cfg ''input_csv'' (PStr ''''))) = input_csv"
      and "input_csv \<noteq> []"
      and "strip L (py_str L (dict_get dataset_cfg ''target_column'' (PStr ''target''))) = target_column"
  shows
   "(files s input_csv = None \<longleftrightarrow>
       load_dataset L K config s =
         Inl (FileNotFoundError (''Dataset CSV not found: '' @ input_csv))) \<and>
    (\<forall>msg. load_dataset L K config s = Inl (FileNotFoundError msg) \<longrightarrow> files s input_csv = None) \<and>
    (\<forall>msg. load_dataset L K config s = Inl (ValueError msg) \<longrightarrow>
       (\<exists>df. files s input_csv = Some (Csv df) \<and> target_column \<notin> set (column_names df))) \<and>
    (\<forall>df. files s input_csv = Some (Csv df) \<longrightarrow>
       (target_column \<notin> set (column_names df) \<longleftrightarrow>
          load_dataset L K config s =
            Inl (ValueError (''Target column '' @ [CHR 0x27] @ target_column @ [CHR 0x27] @
                             '' not found in '' @ input_csv))) \<and>
       (target_column \<in> set (column_names df) \<longrightarrow>
          (\<exists>X dt cells.
             load_dataset L K config s =
               Inr (X, \<lparr>s_index = df_index df, s_dtype = dt, s_values = cells\<rparr>) \<and>
             map_of (df_columns df) target_column = Some (dt, cells) \<and>
             df_index X = df_index df \<and>
             df_columns X =
               filter (\<lambda>(n, c). n \<noteq> target_column \<and> n \<notin> set (map (py_str L) xs))
                 (df_columns df) \<and>
             target_column \<notin> set (column_names X) \<and>
             set (column_names X) \<inter> set (map (py_str L) xs) = {})))"
proof -
  note unfold = load_dataset_unfold[OF assms, of K s]
  have none: "map_of (df_columns df) target_column = None \<longleftrightarrow>
              target_column \<notin> set (column_names df)" for df
    by (simp add: column_names_def map_of_eq_None_iff)
  have a: "files s input_csv = None \<longleftrightarrow>
       load_dataset L K config s =
         Inl (FileNotFoundError (''Dataset CSV not found: '' @ input_csv))"
    unfolding unfold by (auto split: option.splits content.splits)
  have b: "files s input_csv = None"
    if "load_dataset L K config s = Inl (FileNotFoundError msg)" for msg
    using that unfolding unfold by (auto split: option.splits content.splits)
  have c: "\<exists>df. files s input_csv = Some (Csv df) \<and> target_column \<notin> set (column_names df)"
    if "load_dataset L K config s = Inl (ValueError msg)" for msg
    using that unfolding unfold by (auto simp: none[symmetric] split: option.splits content.splits)
  have d: "target_column \<notin> set (column_names df) \<longleftrightarrow>
          load_dataset L K config s =
            Inl (ValueError (''Target column '' @ [CHR 0x27] @ target_column @ [CHR 0x27] @
                             '' not found in '' @ input_csv))"
    if "files s input_csv = Some (Csv df)" for df
    using that unfolding unfold by (auto simp: none[symmetric] split: option.splits)
  have e: "\<exists>X dt cells.
             load_dataset L K config s =
               Inr (X, \<lparr>s_index = df_index df, s_dtype = dt, s_values = cells\<rparr>) \<and>
             map_of (df_columns df) target_column = Some (dt, cells) \<and>
             df_index X = df_index df \<and>
             df_columns X =
               filter (\<lambda>(n, c). n \<noteq> target_column \<and> n \<notin> set (map (py_str L) xs))
                 (df_columns df) \<and>
             target_column \<notin> set (column_names X) \<and>
             set (column_names X) \<inter> set (map (py_str L) xs) = {}"
    if f: "files s input_csv = Some (Csv df)" and t: "target_column \<in> set (column_names df)" for df
  proof -
    from t obtain dt cells where hit: "map_of (df_columns df) target_column = Some (dt, cells)"
      using none[of df] by (cases "map_of (df_columns df) target_column") auto
    let ?X = "df\<lparr>df_columns :=
                   filter (\<lambda>(n, c). n \<noteq> target_column \<and> n \<notin> set (map (py_str L) xs))
                     (df_columns df)\<rparr>"
    have "load_dataset L K config s =
            Inr (?X, \<lparr>s_index = df_index df, s_dtype = dt, s_values = cells\<rparr>)"
      using f hit unfolding unfold by simp
    moreover have "target_column \<notin> set (column_names ?X)"
      by (auto simp: column_names_def)
    moreover have "set (column_names ?X) \<inter> set (map (py_str L) xs) = {}"
      by (auto simp: column_names_def)
    ultimately show ?thesis using hit by (intro exI[of _ ?X] exI[of _ dt] exI[of _ cells]) simp
  qed
  show ?thesis using a b c d e by blast
qed

text \<open>
  A file with the columns \<^verbatim>\<open>id\<close>, \<^verbatim>\<open>age\<close>, \<^verbatim>\<open>label\<close> and \<^verbatim>\<open>target\<close>, the label
  column \<^verbatim>\<open>label\<close>, and \<^verbatim>\<open>id\<close> to drop: the features are \<^verbatim>\<open>age\<close> and \<^verbatim>\<open>target\<close>.
  With no file system at all, the same configuration fails with \<^verbatim>\<open>FileNotFoundError\<close>.
\<close>

theorem load_dataset_errors_and_result_witness:
  "getitem (PDict example_dataset_config) ''dataset'' =
     Inr (PDict [(''input_csv'', PStr '' data/train.csv''),
                 (''target_column'', PStr ''label''),
                 (''drop_columns'', PList [PStr ''id'', PStr ''missing''])]) \<and>
   py_iter (PList [PStr ''id'', PStr ''missing'']) = Inr [PStr ''id'', PStr ''missing''] \<and>
   strip example_lib (py_str example_lib (PStr '' data/train.csv'')) = ''data/train.csv'' \<and>
   ''data/train.csv'' \<noteq> [] \<and>
   strip example_lib (py_str example_lib (PStr ''label'')) = ''label'' \<and>
   load_dataset example_lib example_sk example_dataset_config data_fs =
     Inr (\<lparr>df_index = [0, 1, 2, 3],
           df_columns =
             [(''age'', Number, [PInt 23, PInt 58, PInt 41, PInt 35]),
              (''target'', Other, [PStr ''basic'', PStr ''basic'', PStr ''gold'', PStr ''gold''])]\<rparr>,
          \<lparr>s_index = [0, 1, 2, 3], s_dtype = Number,
           s_values = [PInt 0, PInt 0, PInt 1, PInt 1]\<rparr>) \<and>
   load_dataset example_lib example_sk example_dataset_config example_fs =
     Inl (FileNotFoundError ''Dataset CSV not found: data/train.csv'')"
proof -
  let ?dc = "[(''input_csv'', PStr '' data/train.csv''),
              (''target_column'', PStr ''label''),
              (''drop_columns'', PList [PStr ''id'', PStr ''missing''])]"
  have h1: "getitem (PDict example_dataset_config) ''dataset'' = Inr (PDict ?dc)"
    by (simp add: getitem_def example_dataset_config_def)
  have h2: "py_iter (dict_get ?dc ''drop_columns'' (PList [])) = Inr [PStr ''id'', PStr ''missing'']"
    by (simp add: py_iter_def dict_get_def)
  have h3: "strip example_lib (py_str example_lib (dict_get ?dc ''input_csv'' (PStr ''''))) =
            ''data/train.csv''"
    by (simp add: dict_get_def py_str_def example_lib_def strip_ascii_def)
  have h4: "''data/train.csv'' \<noteq> []" by simp
  have h5: "strip example_lib (py_str example_lib (dict_get ?dc ''target_column'' (PStr ''target''))) =
            ''label''"
    by (simp add: dict_get_def py_str_def example_lib_def strip_ascii_def)
  note th = load_dataset_errors_and_result[OF h1 h2 h3 h4 h5, of _ example_sk]
  have f: "files data_fs ''data/train.csv'' = Some (Csv example_csv)"
    by (simp add: data_fs_def)
  have t: "''label'' \<in> set (column_names example_csv)"
    by (simp add: column_names_def example_csv_def)
  from th[of data_fs] f t obtain X dt cells where
    r: "load_dataset example_lib example_sk example_dataset_config data_fs =
          Inr (X, \<lparr>s_index = df_index example_csv, s_dtype = dt, s_values = cells\<rparr>)"
    and hit: "map_of (df_columns example_csv) ''label'' = Some (dt, cells)"
    and idx: "df_index X = df_index example_csv"
    and cols: "df_columns X =
               filter (\<lambda>(n, c). n \<noteq> ''label'' \<and> n \<notin> set (map (py_str example_lib) [PStr ''id'', PStr ''missing'']))
                 (df_columns example_csv)"
    by blast
  have X: "X = \<lparr>df_index = [0, 1, 2, 3],
           df_columns =
             [(''age'', Number, [PInt 23, PInt 58, PInt 41, PInt 35]),
              (''target'', Other, [PStr ''basic'', PStr ''basic'', PStr ''gold'', PStr ''gold''])]\<rparr>"
    using idx cols by (cases X) (simp add: example_csv_def py_str_def)
  have y: "dt = Number \<and> cells = [PInt 0, PInt 0, PInt 1, PInt 1]"
    using hit by (simp add: example_csv_def)
  have ok: "load_dataset example_lib example_sk example_dataset_config data_fs =
     Inr (\<lparr>df_index = [0, 1, 2, 3],
           df_columns =
             [(''age'', Number, [PInt 23, PInt 58, PInt 41, PInt 35]),
              (''target'', Other, [PStr ''basic'', PStr ''basic'', PStr ''gold'', PStr ''gold''])]\<rparr>,
          \<lparr>s_index = [0, 1, 2, 3], s_dtype = Number,
           s_values = [PInt 0, PInt 0, PInt 1, PInt 1]\<rparr>)"
    using r X y by (simp add: example_csv_def)
  have "files example_fs ''data/train.csv'' = None" by (simp add: example_fs_def)
  with th[of example_fs]
  have missing: "load_dataset example_lib example_sk example_dataset_config example_fs =
     Inl (FileNotFoundError ''Dataset CSV not found: data/train.csv'')"
    by simp
  have p2: "py_iter (PList [PStr ''id'', PStr ''missing'']) = Inr [PStr ''id'', PStr ''missing'']"
    by (simp add: py_iter_def)
  have p3: "strip example_lib (py_str example_lib (PStr '' data/train.csv'')) = ''data/train.csv''"
    by (simp add: py_str_def example_lib_def strip_ascii_def)
  have p5: "strip example_lib (py_str example_lib (PStr ''label'')) = ''label''"
    by (simp add: py_str_def example_lib_def strip_ascii_def)
  from h1 p2 p3 h4 p5 ok missing show ?thesis by simp
qed

section \<open>Properties of \<^verbatim>\<open>split_dataset\<close>\<close>

lemma nunique_count:
  assumes "nunique y = Inr u"
  shows "u = card (hash_key ` {v \<in> set (s_values y). \<not> is_na v})"
proof -
  from assms have "u = length (remdups (map hash_key (filter (\<lambda>v. \<not> is_na v) (s_values y))))"
    by (simp add: nunique_def split: if_splits)
  then show ?thesis by (simp add: length_remdups_card_conv)
qed

lemma nunique_gt_1:
  assumes "nunique y = Inr u"
  shows "1 < u \<longleftrightarrow>
   (\<exists>a b. a \<in> set (s_values y) \<and> b \<in> set (s_values y) \<and> \<not> is_na a \<and> \<not> is_na b \<and>
          hash_key a \<noteq> hash_key b)"
proof -
  define S where "S = hash_key ` {v \<in> set (s_values y). \<not> is_na v}"
  have fin: "finite S" unfolding S_def by simp
  have u: "u = card S" unfolding S_def using assms by (rule nunique_count)
  have c: "card S \<le> Suc 0 \<longleftrightarrow> (\<forall>a\<in>S. \<forall>b\<in>S. a = b)"
    using fin by (rule card_le_Suc0_iff_eq)
  have "1 < u \<longleftrightarrow> \<not> card S \<le> Suc 0" unfolding u by linarith
  then have one: "1 < u \<longleftrightarrow> \<not> (\<forall>a\<in>S. \<forall>b\<in>S. a = b)" unfolding c .
  have "(\<forall>a\<in>S. \<forall>b\<in>S. a = b) \<longleftrightarrow>
        (\<forall>a b. a \<in> set (s_values y) \<and> b \<in> set (s_values y) \<and> \<not> is_na a \<and> \<not> is_na b \<longrightarrow>
               hash_key a = hash_key b)"
    unfolding S_def by blast
  with one show ?thesis by blast
qed

lemma mset_insert_at: "mset (take k xs @ x # drop k xs) = add_mset x (mset xs)"
proof -
  have "mset (take k xs) + mset (drop k xs) = mset xs"
    using mset_append[of "take k xs" "drop k xs"] by (simp only: append_take_drop_id)
  then show ?thesis by simp
qed

lemma mset_shuffle: "mset (shuffle ds xs) = mset xs"
proof (induction ds xs rule: shuffle.induct)
  case (3 d ds x xs)
  then show ?case by (simp only: shuffle.simps Let_def mset_insert_at) simp
qed simp_all

lemma positions_of_cut:
  assumes "order = shuffle draws [0..<n]"
  shows "mset (drop k order @ take k order) = mset [0..<n]"
proof -
  have "mset (drop k order @ take k order) = mset (take k order @ drop k order)"
    by (simp only: mset_append add.commute)
  also have "\<dots> = mset order" by (simp only: append_take_drop_id)
  also have "\<dots> = mset [0..<n]" unfolding assms by (rule mset_shuffle)
  finally show ?thesis .
qed

lemma train_test_split_parts:
  assumes "train_test_split K g X y test_size random_state stratify =
             Inr (X_train, X_test, y_train, y_test)"
  shows "length (s_index y) = length (df_index X) \<and>
         (\<exists>train test.
            X_train = take_rows X train \<and> X_test = take_rows X test \<and>
            y_train = take_labels y train \<and> y_test = take_labels y test \<and>
            mset (train @ test) = mset [0..<length (df_index X)])"
proof -
  let ?n = "length (df_index X)"
  let ?src = "case random_state of Some seed \<Rightarrow> Seeded seed | None \<Rightarrow> Global g"
  from assms have len: "length (s_index y) = ?n"
    by (simp add: train_test_split_def Let_def split: if_splits)
  with assms obtain n_test draws where
    plan: "split_plan K ?src ?n test_size (map_option s_values stratify) = Inr (n_test, draws)"
    by (auto simp: train_test_split_def Let_def and_then_def split: sum.splits)
  define order where "order = shuffle draws [0..<?n]"
  from assms len plan have
    "X_train = take_rows X (drop n_test order)" "X_test = take_rows X (take n_test order)"
    "y_train = take_labels y (drop n_test order)" "y_test = take_labels y (take n_test order)"
    by (simp_all add: train_test_split_def Let_def and_then_def order_def)
  moreover have "mset (drop n_test order @ take n_test order) = mset [0..<?n]"
    using order_def by (rule positions_of_cut)
  ultimately show ?thesis using len by blast
qed

lemma rows_of_positions:
  assumes "mset (a @ b) = mset [0..<length xs]"
  shows "mset (map (\<lambda>i. xs ! i) a) + mset (map (\<lambda>i. xs ! i) b) = mset xs"
proof -
  have "mset (map (\<lambda>i. xs ! i) a) + mset (map (\<lambda>i. xs ! i) b) =
        image_mset (\<lambda>i. xs ! i) (mset (a @ b))" by simp
  also have "\<dots> = image_mset (\<lambda>i. xs ! i) (mset [0..<length xs])" by (simp only: assms)
  also have "\<dots> = mset (map (\<lambda>i. xs ! i) [0..<length xs])" by (simp only: mset_map)
  also have "\<dots> = mset xs" by (simp only: map_nth)
  finally show ?thesis .
qed

lemma positions_distinct:
  assumes "mset (a @ b) = mset [0..<n]"
  shows "distinct a \<and> distinct b \<and> set a \<inter> set b = {} \<and> set a \<union> set b = {0..<n}"
proof -
  have "distinct (a @ b)" using assms mset_eq_imp_distinct_iff distinct_upt by blast
  moreover have "set (a @ b) = set [0..<n]" using assms by (rule mset_eq_setD)
  ultimately show ?thesis by auto
qed

lemma parts_of_distinct:
  assumes "mset a + mset b = mset (c :: nat list)" and "distinct c"
  shows "set a \<inter> set b = {} \<and> set a \<union> set b = set c"
proof -
  have m: "mset (a @ b) = mset c" using assms(1) by simp
  then have "distinct (a @ b)" using assms(2) mset_eq_imp_distinct_iff by blast
  moreover have "set (a @ b) = set c" using m by (rule mset_eq_setD)
  ultimately show ?thesis by auto
qed

lemma take_rows_index: "df_index (take_rows X rows) = map (\<lambda>i. df_index X ! i) rows"
  by (simp add: take_rows_def)

lemma take_labels_index: "s_index (take_labels y rows) = map (\<lambda>i. s_index y ! i) rows"
  by (simp add: take_labels_def)

lemma split_dataset_unfold:
  assumes "getitem (PDict config) ''dataset'' = Inr (PDict dataset_cfg)"
      and "py_float L (dict_get dataset_cfg ''test_size'' (PFloat (Fin (2 / 10)))) = Inr test_size"
      and "py_int L (dict_get dataset_cfg ''random_state'' (PInt 42)) = Inr random_state"
      and "nunique y = Inr u"
  shows "split_dataset L K g X y config =
         train_test_split K g X y test_size (Some random_state) (if 1 < u then Some y else None)"
  using assms by (simp add: split_dataset_def get_method_dict and_then_Inr)

lemma split_dataset_returns:
  assumes "split_dataset L K g X y config = Inr r"
  shows "\<exists>test_size random_state stratify.
           train_test_split K g X y test_size (Some random_state) stratify = Inr r"
  using assms unfolding split_dataset_def and_then_def by (auto split: sum.splits)

lemma train_test_split_seeded:
  "train_test_split K g' X y test_size (Some seed) stratify =
   train_test_split K g X y test_size (Some seed) stratify"
  by (simp add: train_test_split_def Let_def)

lemma split_dataset_seeded:
  "split_dataset L K g' X y config = split_dataset L K g X y config"
  by (simp add: split_dataset_def train_test_split_seeded[of K g' X y _ _ _ g])

lemma split_dataset_succeeds:
  assumes "getitem (PDict config) ''dataset'' = Inr (PDict dataset_cfg)"
      and "py_float L (dict_get dataset_cfg ''test_size'' (PFloat (Fin (2 / 10)))) = Inr test_size"
      and "py_int L (dict_get dataset_cfg ''random_state'' (PInt 42)) = Inr random_state"
      and "nunique y = Inr u"
      and "length (s_index y) = length (df_index X)"
      and "split_plan K (Seeded random_state) (length (df_index X)) test_size
             (if 1 < u then Some (s_values y) else None) = Inr plan"
  shows "\<exists>r. split_dataset L K g X y config = Inr r"
proof -
  have m: "map_option s_values (if 1 < u then Some y else None) =
           (if 1 < u then Some (s_values y) else None)" by simp
  obtain n_test draws where p: "plan = (n_test, draws)" by (cases plan)
  have "\<exists>r. train_test_split K g X y test_size (Some random_state)
              (if 1 < u then Some y else None) = Inr r"
    unfolding train_test_split_def Let_def m using assms(5,6) p
    by (simp add: and_then_Inr)
  then show ?thesis unfolding split_dataset_unfold[OF assms(1-4)] .
qed

text \<open>
  Python's equality decides what is one label: a column of \<^verbatim>\<open>1\<close>, \<^verbatim>\<open>True\<close>, \<^verbatim>\<open>1.0\<close> and a
  missing cell has one value, and so is split unstratified; a column holding a list
  cannot be counted.
\<close>

lemma nunique_python_equality:
  "nunique \<lparr>s_index = [0, 1, 2, 3], s_dtype = Other,
            s_values = [PInt 1, PBool True, PFloat (Fin 1), PNone]\<rparr> = Inr 1 \<and>
   nunique \<lparr>s_index = [0, 1, 2], s_dtype = Other,
            s_values = [PInt 0, PStr ''0'', PFloat NaN]\<rparr> = Inr 2 \<and>
   nunique \<lparr>s_index = [0, 1], s_dtype = Other,
            s_values = [PInt 0, PList []]\<rparr> = Inl TypeError"
  by (simp add: nunique_def is_na_def)

text \<open>
  C5. \<^verbatim>\<open>train_test_split\<close> is modelled from the spec. For every feature table, label
  column and configuration:
  \<^item> when \<open>split_dataset\<close> returns, the features and the labels have the same row count,
    and there are two lists of row positions, without repetition, disjoint and
    together all positions of the input, such that the training parts are the rows of
    the features and of the labels at the first list and the test parts those at the
    second; so the row counts of the two parts add up to the row count of the input,
    the parts' row labels together are the input's (as multisets), and for distinct row
    labels the parts are disjoint and cover the input; the same for the labels;
  \<^item> two calls on the same input and configuration return the same, whatever the state
    of the global random generator: the seed of the configuration is always passed;
  \<^item> with \<^verbatim>\<open>test_size\<close> and \<^verbatim>\<open>random_state\<close> read from the configuration and the labels
    counted, the call is \<^verbatim>\<open>train_test_split\<close> on \<open>X\<close> and \<open>y\<close>, stratified by \<open>y\<close> when
    the labels have more than one distinct value and unstratified otherwise;
  \<^item> the labels have more than one distinct value exactly when two cells that are not
    missing differ as Python values (\<^verbatim>\<open>1\<close>, \<^verbatim>\<open>True\<close> and \<^verbatim>\<open>1.0\<close> do not differ);
  \<^item> \<open>split_dataset\<close> returns whenever the configuration can be read, the labels can
    be counted, features and labels have the same row count and the library does not
    raise.
\<close>

theorem split_dataset_partitions_rows:
   "(\<forall>X_train X_test y_train y_test.
       split_dataset L K g X y config = Inr (X_train, X_test, y_train, y_test) \<longrightarrow>
       length (s_index y) = length (df_index X) \<and>
       (\<exists>train test.
          X_train = take_rows X train \<and> X_test = take_rows X test \<and>
          y_train = take_labels y train \<and> y_test = take_labels y test \<and>
          distinct train \<and> distinct test \<and> set train \<inter> set test = {} \<and>
          set train \<union> set test = {0..<length (df_index X)}) \<and>
       length (df_index X_train) + length (df_index X_test) = length (df_index X) \<and>
       mset (df_index X_train) + mset (df_index X_test) = mset (df_index X) \<and>
       (distinct (df_index X) \<longrightarrow>
          set (df_index X_train) \<inter> set (df_index X_test) = {} \<and>
          set (df_index X_train) \<union> set (df_index X_test) = set (df_index X)) \<and>
       length (s_index y_train) + length (s_index y_test) = length (s_index y) \<and>
       mset (s_index y_train) + mset (s_index y_test) = mset (s_index y)) \<and>
    (\<forall>g'. split_dataset L K g' X y config = split_dataset L K g X y config) \<and>
    (\<forall>dataset_cfg test_size random_state u.
       getitem (PDict config) ''dataset'' = Inr (PDict dataset_cfg) \<and>
       py_float L (dict_get dataset_cfg ''test_size'' (PFloat (Fin (2 / 10)))) = Inr test_size \<and>
       py_int L (dict_get dataset_cfg ''random_state'' (PInt 42)) = Inr random_state \<and>
       nunique y = Inr u \<longrightarrow>
       split_dataset L K g X y config =
         train_test_split K g X y test_size (Some random_state)
           (if 1 < u then Some y else None)) \<and>
    (\<forall>u. nunique y = Inr u \<longrightarrow>
       (1 < u \<longleftrightarrow>
          (\<exists>a b. a \<in> set (s_values y) \<and> b \<in> set (s_values y) \<and>
                 \<not> is_na a \<and> \<not> is_na b \<and> hash_key a \<noteq> hash_key b))) \<and>
    (\<forall>dataset_cfg test_size random_state u plan.
       getitem (PDict config) ''dataset'' = Inr (PDict dataset_cfg) \<and>
       py_float L (dict_get dataset_cfg ''test_size'' (PFloat (Fin (2 / 10)))) = Inr test_size \<and>
       py_int L (dict_get dataset_cfg ''random_state'' (PInt 42)) = Inr random_state \<and>
       nunique y = Inr u \<and> length (s_index y) = length (df_index X) \<and>
       split_plan K (Seeded random_state) (length (df_index X)) test_size
         (if 1 < u then Some (s_values y) else None) = Inr plan \<longrightarrow>
       (\<exists>r. split_dataset L K g X y config = Inr r))"
proof -
  have parts: "length (s_index y) = length (df_index X) \<and>
       (\<exists>train test.
          X_train = take_rows X train \<and> X_test = take_rows X test \<and>
          y_train = take_labels y train \<and> y_test = take_labels y test \<and>
          distinct train \<and> distinct test \<and> set train \<inter> set test = {} \<and>
          set train \<union> set test = {0..<length (df_index X)}) \<and>
       length (df_index X_train) + length (df_index X_test) = length (df_index X) \<and>
       mset (df_index X_train) + mset (df_index X_test) = mset (df_index X) \<and>
       (distinct (df_index X) \<longrightarrow>
          set (df_index X_train) \<inter> set (df_index X_test) = {} \<and>
          set (df_index X_train) \<union> set (df_index X_test) = set (df_index X)) \<and>
       length (s_index y_train) + length (s_index y_test) = length (s_index y) \<and>
       mset (s_index y_train) + mset (s_index y_test) = mset (s_index y)"
    if r: "split_dataset L K g X y config = Inr (X_train, X_test, y_train, y_test)"
    for X_train X_test y_train y_test
  proof -
    from split_dataset_returns[OF r] obtain ts rs st where
      "train_test_split K g X y ts (Some rs) st = Inr (X_train, X_test, y_train, y_test)"
      by blast
    from train_test_split_parts[OF this] obtain train test where
      len: "length (s_index y) = length (df_index X)" and
      eqs: "X_train = take_rows X train" "X_test = take_rows X test"
           "y_train = take_labels y train" "y_test = take_labels y test" and
      pos: "mset (train @ test) = mset [0..<length (df_index X)]"
      by blast
    have mx: "mset (df_index X_train) + mset (df_index X_test) = mset (df_index X)"
      unfolding eqs take_rows_index using pos by (rule rows_of_positions)
    have my: "mset (s_index y_train) + mset (s_index y_test) = mset (s_index y)"
      unfolding eqs take_labels_index using pos[folded len] by (rule rows_of_positions)
    have lx: "length (df_index X_train) + length (df_index X_test) = length (df_index X)"
      using arg_cong[OF mx, of size] by simp
    have ly: "length (s_index y_train) + length (s_index y_test) = length (s_index y)"
      using arg_cong[OF my, of size] by simp
    have ex: "\<exists>train test.
          X_train = take_rows X train \<and> X_test = take_rows X test \<and>
          y_train = take_labels y train \<and> y_test = take_labels y test \<and>
          distinct train \<and> distinct test \<and> set train \<inter> set test = {} \<and>
          set train \<union> set test = {0..<length (df_index X)}"
      using eqs positions_distinct[OF pos] by blast
    show ?thesis using len ex mx my lx ly parts_of_distinct[OF mx] by blast
  qed
  have A: "\<forall>X_train X_test y_train y_test.
       split_dataset L K g X y config = Inr (X_train, X_test, y_train, y_test) \<longrightarrow>
       length (s_index y) = length (df_index X) \<and>
       (\<exists>train test.
          X_train = take_rows X train \<and> X_test = take_rows X test \<and>
          y_train = take_labels y train \<and> y_test = take_labels y test \<and>
          distinct train \<and> distinct test \<and> set train \<inter> set test = {} \<and>
          set train \<union> set test = {0..<length (df_index X)}) \<and>
       length (df_index X_train) + length (df_index X_test) = length (df_index X) \<and>
       mset (df_index X_train) + mset (df_index X_test) = mset (df_index X) \<and>
       (distinct (df_index X) \<longrightarrow>
          set (df_index X_train) \<inter> set (df_index X_test) = {} \<and>
          set (df_index X_train) \<union> set (df_index X_test) = set (df_index X)) \<and>
       length (s_index y_train) + length (s_index y_test) = length (s_index y) \<and>
       mset (s_index y_train) + mset (s_index y_test) = mset (s_index y)"
    using parts by blast
  have B: "\<forall>g'. split_dataset L K g' X y config = split_dataset L K g X y config"
    using split_dataset_seeded by blast
  have C: "\<forall>dataset_cfg test_size random_state u.
       getitem (PDict config) ''dataset'' = Inr (PDict dataset_cfg) \<and>
       py_float L (dict_get dataset_cfg ''test_size'' (PFloat (Fin (2 / 10)))) = Inr test_size \<and>
       py_int L (dict_get dataset_cfg ''random_state'' (PInt 42)) = Inr random_state \<and>
       nunique y = Inr u \<longrightarrow>
       split_dataset L K g X y config =
         train_test_split K g X y test_size (Some random_state)
           (if 1 < u then Some y else None)"
    using split_dataset_unfold by blast
  have D: "\<forall>u. nunique y = Inr u \<longrightarrow>
       (1 < u \<longleftrightarrow>
          (\<exists>a b. a \<in> set (s_values y) \<and> b \<in> set (s_values y) \<and>
                 \<not> is_na a \<and> \<not> is_na b \<and> hash_key a \<noteq> hash_key b))"
    using nunique_gt_1 by blast
  have E: "(\<forall>dataset_cfg test_size random_state u plan.
         getitem (PDict config) ''dataset'' = Inr (PDict dataset_cfg) \<and>
         py_float L (dict_get dataset_cfg ''test_size'' (PFloat (Fin (2 / 10)))) = Inr test_size \<and>
         py_int L (dict_get dataset_cfg ''random_state'' (PInt 42)) = Inr random_state \<and>
         nunique y = Inr u \<and> length (s_index y) = length (df_index X) \<and>
         split_plan K (Seeded random_state) (length (df_index X)) test_size
           (if 1 < u then Some (s_values y) else None) = Inr plan \<longrightarrow>
         (\<exists>r. split_dataset L K g X y config = Inr r))"
    using split_dataset_succeeds by blast
  show ?thesis
    apply (rule conjI[OF A])
    apply (rule conjI[OF B])
    apply (rule conjI[OF C])
    apply (rule conjI[OF D])
    apply (rule E)
    done
qed

text \<open>
  The features and labels of the example data file, with the default \<^verbatim>\<open>test_size\<close> and
  \<^verbatim>\<open>random_state\<close>: the labels have two values, so the split is stratified; the example
  library orders the rows 1, 0, 3, 2, so the row labelled 1 is the test part and the rows
  labelled 0, 3 and 2 the training part, in whatever state the global generator is.
\<close>

lemma example_order: "shuffle (map (\<lambda>i. (i + 1) mod 2) [0..<4]) [0..<4] = [1, 0, 3, 2 :: nat]"
  by code_simp

theorem split_dataset_partitions_rows_witness:
  "nunique example_y_full = Inr 2 \<and>
   split_dataset example_lib example_sk 0 example_X_full example_y_full example_dataset_config =
     train_test_split example_sk 0 example_X_full example_y_full (Fin (2 / 10)) (Some 42)
       (Some example_y_full) \<and>
   split_dataset example_lib example_sk 1 example_X_full example_y_full example_dataset_config =
     Inr (\<lparr>df_index = [0, 3, 2],
           df_columns = [(''age'', Number, [PInt 23, PInt 35, PInt 41])]\<rparr>,
          \<lparr>df_index = [1], df_columns = [(''age'', Number, [PInt 58])]\<rparr>,
          \<lparr>s_index = [0, 3, 2], s_dtype = Number, s_values = [PInt 0, PInt 1, PInt 1]\<rparr>,
          \<lparr>s_index = [1], s_dtype = Number, s_values = [PInt 0]\<rparr>) \<and>
   length [0, 3, 2 :: nat] + length [1 :: nat] = length (df_index example_X_full) \<and>
   mset [0, 3, 2 :: nat] + mset [1] = mset (df_index example_X_full) \<and>
   set [0, 3, 2 :: nat] \<inter> set [1] = {}"
proof -
  note th = split_dataset_partitions_rows[of example_lib example_sk 0 example_X_full
      example_y_full example_dataset_config]
  let ?dc = "[(''input_csv'', PStr '' data/train.csv''),
              (''target_column'', PStr ''label''),
              (''drop_columns'', PList [PStr ''id'', PStr ''missing''])]"
  let ?r = "(\<lparr>df_index = [0, 3, 2],
           df_columns = [(''age'', Number, [PInt 23, PInt 35, PInt 41])]\<rparr>,
          \<lparr>df_index = [1], df_columns = [(''age'', Number, [PInt 58])]\<rparr>,
          \<lparr>s_index = [0, 3, 2], s_dtype = Number, s_values = [PInt 0, PInt 1, PInt 1]\<rparr>,
          \<lparr>s_index = [1], s_dtype = Number, s_values = [PInt 0]\<rparr>)"
  have h1: "getitem (PDict example_dataset_config) ''dataset'' = Inr (PDict ?dc)"
    by (simp add: getitem_def example_dataset_config_def)
  have h2: "py_float example_lib (dict_get ?dc ''test_size'' (PFloat (Fin (2 / 10)))) = Inr (Fin (2 / 10))"
    by (simp add: py_float_def dict_get_def)
  have h3: "py_int example_lib (dict_get ?dc ''random_state'' (PInt 42)) = Inr 42"
    by (simp add: py_int_def dict_get_def)
  have nu: "nunique example_y_full = Inr 2"
    by (simp add: nunique_def example_y_full_def is_na_def)
  from th h1 h2 h3 nu
  have call: "split_dataset example_lib example_sk 0 example_X_full example_y_full example_dataset_config =
     train_test_split example_sk 0 example_X_full example_y_full (Fin (2 / 10)) (Some 42)
       (Some example_y_full)"
    by simp
  have eval: "train_test_split example_sk 0 example_X_full example_y_full (Fin (2 / 10)) (Some 42)
       (Some example_y_full) = Inr ?r"
    by (simp add: train_test_split_def example_sk_def example_X_full_def example_y_full_def
          and_then_Inr example_order take_rows_def take_labels_def Let_def)
  from th have "split_dataset example_lib example_sk 1 example_X_full example_y_full example_dataset_config =
        split_dataset example_lib example_sk 0 example_X_full example_y_full example_dataset_config"
    by blast
  with call eval have other: "split_dataset example_lib example_sk 1 example_X_full example_y_full
        example_dataset_config = Inr ?r"
    by simp
  from th call eval
  have "length (df_index (fst ?r)) + length (df_index (fst (snd ?r))) = length (df_index example_X_full) \<and>
        mset (df_index (fst ?r)) + mset (df_index (fst (snd ?r))) = mset (df_index example_X_full)"
    by simp
  then have len: "length [0, 3, 2 :: nat] + length [1 :: nat] = length (df_index example_X_full)"
    and ms: "mset [0, 3, 2 :: nat] + mset [1] = mset (df_index example_X_full)"
    by simp_all
  have dj: "set [0, 3, 2 :: nat] \<inter> set [1] = {}" by simp
  from nu call other len ms dj show ?thesis by simp
qed

end
